theory Spec2Isabelle
  imports Main
begin

section \<open>Reflected Go types, as far as the signature validator inspects them\<close>

text \<open>
  The handler wrapper of \<^verbatim>\<open>service_handler.go\<close> works on \<^verbatim>\<open>reflect.Type\<close> values.
  A type is represented by the parts the code looks at: its kind, its name, its element
  and key types, and for a function its parameter and result lists.  Struct fields are
  restricted to \<^verbatim>\<open>int\<close> and \<^verbatim>\<open>string\<close>; an interface type carries its name and the
  names of its methods (\<^verbatim>\<open>interface{}\<close> is \<open>TInterface [] []\<close>).
\<close>

datatype kind = KBool | KInt | KString | KStruct | KPtr | KSlice | KMap | KInterface | KFunc

datatype fkind = FInt | FString

datatype gotype =
    TBool
  | TInt
  | TString
  | TStruct string "(string \<times> fkind) list"
  | TPtr gotype
  | TSlice gotype
  | TMap gotype gotype
  | TInterface string "string list"
  | TFunc "gotype list" "gotype list" bool

fun kindOf :: "gotype \<Rightarrow> kind" where
  "kindOf TBool = KBool"
| "kindOf TInt = KInt"
| "kindOf TString = KString"
| "kindOf (TStruct n fs) = KStruct"
| "kindOf (TPtr t) = KPtr"
| "kindOf (TSlice t) = KSlice"
| "kindOf (TMap k v) = KMap"
| "kindOf (TInterface n ms) = KInterface"
| "kindOf (TFunc ins outs v) = KFunc"

fun nameOf :: "gotype \<Rightarrow> string" where
  "nameOf TBool = ''bool''"
| "nameOf TInt = ''int''"
| "nameOf TString = ''string''"
| "nameOf (TStruct n fs) = n"
| "nameOf (TInterface n ms) = n"
| "nameOf t = []"

text \<open>\<^verbatim>\<open>Type.Elem()\<close> and \<^verbatim>\<open>Type.Key()\<close> panic on a type without element or key:
  \<open>None\<close> here.\<close>

fun elemOf :: "gotype \<Rightarrow> gotype option" where
  "elemOf (TPtr t) = Some t"
| "elemOf (TSlice t) = Some t"
| "elemOf (TMap k v) = Some v"
| "elemOf t = None"

fun keyOf :: "gotype \<Rightarrow> gotype option" where
  "keyOf (TMap k v) = Some k"
| "keyOf t = None"

fun insOf :: "gotype \<Rightarrow> gotype list" where
  "insOf (TFunc ins outs v) = ins"
| "insOf t = []"

fun outsOf :: "gotype \<Rightarrow> gotype list" where
  "outsOf (TFunc ins outs v) = outs"
| "outsOf t = []"

fun isVariadic :: "gotype \<Rightarrow> bool" where
  "isVariadic (TFunc ins outs v) = v"
| "isVariadic t = False"

text \<open>The element's kind and name, read only behind the kind test that makes
  \<^verbatim>\<open>Elem()\<close> defined (Go's \<^verbatim>\<open>&&\<close> short-circuits).\<close>

definition elemKindIs :: "gotype \<Rightarrow> kind \<Rightarrow> bool" where
  "elemKindIs t k = (case elemOf t of Some e \<Rightarrow> kindOf e = k | None \<Rightarrow> False)"

definition elemNameIs :: "gotype \<Rightarrow> string \<Rightarrow> bool" where
  "elemNameIs t n = (case elemOf t of Some e \<Rightarrow> nameOf e = n | None \<Rightarrow> False)"

definition keyKindIs :: "gotype \<Rightarrow> kind \<Rightarrow> bool" where
  "keyKindIs t k = (case keyOf t of Some e \<Rightarrow> kindOf e = k | None \<Rightarrow> False)"

definition isTypeServiceMethodContext :: "gotype \<Rightarrow> bool" where
  "isTypeServiceMethodContext methodType =
     (kindOf methodType = KPtr \<and> elemKindIs methodType KStruct \<and>
      elemNameIs methodType ''ServiceMethodContext'')"

definition isStructPointer :: "gotype \<Rightarrow> bool" where
  "isStructPointer methodType = (kindOf methodType = KPtr \<and> elemKindIs methodType KStruct)"

definition isStringMap :: "gotype \<Rightarrow> bool" where
  "isStringMap methodType =
     (kindOf methodType = KMap \<and> keyKindIs methodType KString \<and>
      elemKindIs methodType KInterface \<and> elemNameIs methodType [])"

definition isSlice :: "gotype \<Rightarrow> bool" where
  "isSlice methodType = (kindOf methodType = KSlice)"

definition isCustomResponseBodyFunction :: "gotype \<Rightarrow> bool" where
  "isCustomResponseBodyFunction methodType =
     (case outsOf methodType of
        [o0] \<Rightarrow> kindOf o0 = KInterface \<and> nameOf o0 = ''error''
      | _ \<Rightarrow> False)"

definition isDelegatedResponseBodyFunction :: "gotype \<Rightarrow> bool" where
  "isDelegatedResponseBodyFunction methodType =
     (case outsOf methodType of
        [o0, o1] \<Rightarrow> kindOf o0 = KPtr \<and> elemKindIs o0 KStruct \<and>
                    kindOf o1 = KInterface \<and> nameOf o1 = ''error''
      | _ \<Rightarrow> False)"

text \<open>\<^verbatim>\<open>checkServiceMethodPrototype\<close>: \<open>None\<close> is Go's \<^verbatim>\<open>nil\<close> error, \<open>Some msg\<close>
  the error with that message.  The argument is \<open>None\<close> for a \<^verbatim>\<open>nil\<close> type.\<close>

definition checkServiceMethodPrototype :: "gotype option \<Rightarrow> string option" where
  "checkServiceMethodPrototype mt =
     (case mt of
        None \<Rightarrow> Some ''you should provide a function or object method''
      | Some methodType \<Rightarrow>
          if kindOf methodType \<noteq> KFunc then
            Some ''you should provide a function or object method''
          else (case insOf methodType of
             [in0, in1] \<Rightarrow>
               if \<not> isTypeServiceMethodContext in0 then
                 Some ''the first argument should be type *ServiceMethodContext''
               else if \<not> isSlice in1 \<and> \<not> isStringMap in1 \<and> \<not> isStructPointer in1 then
                 Some ''the second argument should be a struct pointer, slice or map[string]interface{}''
               else if \<not> isCustomResponseBodyFunction methodType \<and>
                       \<not> isDelegatedResponseBodyFunction methodType then
                 Some ''the service method only can return error interface or (*struct, error)''
               else None
           | _ \<Rightarrow> Some ''the service method should have two arguments''))"

section \<open>Strings\<close>

text \<open>\<^verbatim>\<open>strings.ToUpper\<close>, \<^verbatim>\<open>strings.ToLower\<close> and \<^verbatim>\<open>strings.HasPrefix\<close> on ASCII text:
  a byte outside \<open>a..z\<close> or \<open>A..Z\<close> is left as it is (Unicode case mapping of
  non-ASCII text is not represented).\<close>

definition upperChar :: "char \<Rightarrow> char" where
  "upperChar c = (let n = (of_char c :: nat) in if 97 \<le> n \<and> n \<le> 122 then char_of (n - 32) else c)"

definition lowerChar :: "char \<Rightarrow> char" where
  "lowerChar c = (let n = (of_char c :: nat) in if 65 \<le> n \<and> n \<le> 90 then char_of (n + 32) else c)"

definition ToUpper :: "string \<Rightarrow> string" where
  "ToUpper s = map upperChar s"

definition ToLower :: "string \<Rightarrow> string" where
  "ToLower s = map lowerChar s"

definition HasPrefix :: "string \<Rightarrow> string \<Rightarrow> bool" where
  "HasPrefix s p = (length p \<le> length s \<and> take (length p) s = p)"

text \<open>Decimal text of a number, as \<^verbatim>\<open>strconv.Itoa\<close> and the JSON encoder print it.\<close>

definition digitChar :: "nat \<Rightarrow> char" where
  "digitChar d = char_of (48 + d)"

fun natDigits :: "nat \<Rightarrow> string" where
  "natDigits n = (if n < 10 then [digitChar n] else natDigits (n div 10) @ [digitChar (n mod 10)])"

definition itoa :: "int \<Rightarrow> string" where
  "itoa i = (if i < 0 then CHR ''-'' # natDigits (nat (- i)) else natDigits (nat i))"

text \<open>Reading a decimal integer, for the form decoder's \<^verbatim>\<open>int\<close> fields: an optional
  sign and at least one digit, inside the 64-bit range; \<open>None\<close> is a conversion error.\<close>

definition isDigit :: "char \<Rightarrow> bool" where
  "isDigit c = (let n = (of_char c :: nat) in 48 \<le> n \<and> n \<le> 57)"

definition digitsValue :: "string \<Rightarrow> nat" where
  "digitsValue ds = foldl (\<lambda>acc c. 10 * acc + (of_char c - 48)) 0 ds"

definition inInt64 :: "int \<Rightarrow> bool" where
  "inInt64 i = (- (2 ^ 63) \<le> i \<and> i < 2 ^ 63)"

definition parseDigits :: "bool \<Rightarrow> string \<Rightarrow> int option" where
  "parseDigits neg ds =
     (if ds = [] \<or> \<not> list_all isDigit ds then None
      else (let v = (if neg then - int (digitsValue ds) else int (digitsValue ds))
            in if inInt64 v then Some v else None))"

fun parseInt :: "string \<Rightarrow> int option" where
  "parseInt [] = None"
| "parseInt (c # cs) =
     (if c = CHR ''-'' then parseDigits True cs
      else if c = CHR ''+'' then parseDigits False cs
      else parseDigits False (c # cs))"

section \<open>Argument values\<close>

text \<open>A struct value lists its fields in declaration order.  \<^verbatim>\<open>reflect.New(t)\<close> is a
  pointer to the zero value of \<open>t\<close>: the model keeps the pointee's type and, when it is a
  struct, its fields; the content of any other pointee is not represented.\<close>

datatype fval = VInt int | VString string

type_synonym svalue = "(string \<times> fval) list"

datatype goval = StructVal svalue | OtherVal

record argument =
  pointee :: gotype
  content :: goval

fun zeroField :: "fkind \<Rightarrow> fval" where
  "zeroField FInt = VInt 0"
| "zeroField FString = VString []"

definition zeroStruct :: "(string \<times> fkind) list \<Rightarrow> svalue" where
  "zeroStruct fs = map (\<lambda>(n, k). (n, zeroField k)) fs"

fun zeroValue :: "gotype \<Rightarrow> goval" where
  "zeroValue (TStruct n fs) = StructVal (zeroStruct fs)"
| "zeroValue t = OtherVal"

definition reflectNew :: "gotype \<Rightarrow> argument" where
  "reflectNew t = \<lparr>pointee = t, content = zeroValue t\<rparr>"

definition typeOfArgument :: "argument \<Rightarrow> gotype" where
  "typeOfArgument a = TPtr (pointee a)"

section \<open>The two decoders\<close>

text \<open>
  Modelled from the spec: \<^verbatim>\<open>schema.Decoder.Decode\<close> (gorilla/schema, configured with
  \<^verbatim>\<open>IgnoreUnknownKeys(true)\<close>) and \<^verbatim>\<open>json.Decoder.Decode\<close> (encoding/json) are libraries
  outside this repository.  After the spec's section 4.2 a decode pass writes every field
  of the argument for which its source has a value, leaves the other fields as they are,
  ignores keys that name no field, and fails on a value that does not fit the field's type.
  A source of form values, \<^verbatim>\<open>url.Values\<close>, is represented by the one value the decoder
  reads for each key.  The form decoder accepts only a pointer to a struct.
\<close>

type_synonym url_values = "string \<rightharpoonup> string"

definition convertField :: "string \<Rightarrow> fval \<Rightarrow> string \<Rightarrow> string + fval" where
  "convertField name old s =
     (case old of
        VString _ \<Rightarrow> Inr (VString s)
      | VInt _ \<Rightarrow> (case parseInt s of
                     Some i \<Rightarrow> Inr (VInt i)
                   | None \<Rightarrow> Inl (''schema: error converting value for '' @ name)))"

fun decodeFields :: "svalue \<Rightarrow> url_values \<Rightarrow> string + svalue" where
  "decodeFields [] src = Inr []"
| "decodeFields ((name, old) # fs) src =
     (case (case src name of None \<Rightarrow> Inr old | Some s \<Rightarrow> convertField name old s) of
        Inl e \<Rightarrow> Inl e
      | Inr v \<Rightarrow> (case decodeFields fs src of
                    Inl e \<Rightarrow> Inl e
                  | Inr fs' \<Rightarrow> Inr ((name, v) # fs')))"

definition formDecode :: "argument \<Rightarrow> url_values \<Rightarrow> string + argument" where
  "formDecode arg src =
     (case content arg of
        StructVal fs \<Rightarrow> (case decodeFields fs src of
                           Inl e \<Rightarrow> Inl e
                         | Inr fs' \<Rightarrow> Inr (arg\<lparr>content := StructVal fs'\<rparr>))
      | OtherVal \<Rightarrow> Inl ''schema: interface must be a pointer to struct'')"

text \<open>A JSON member value is a number, a string, or a value of some other JSON type.
  The unread request body is either exhausted (\<open>None\<close>) or holds one JSON text, which is
  an object or a text the decoder rejects whatever the target (a syntax error, with the
  decoder's message).  One \<^verbatim>\<open>Decode\<close> call reads the text and leaves the body exhausted;
  on an exhausted body it fails with \<^verbatim>\<open>EOF\<close>.\<close>

datatype jvalue = JNumber int | JString string | JOther

datatype json_text = Rejected string | Object "(string \<times> jvalue) list"

definition assignMember :: "string \<Rightarrow> fval \<Rightarrow> jvalue \<Rightarrow> string + fval" where
  "assignMember name old j =
     (case (old, j) of
        (VInt _, JNumber i) \<Rightarrow> Inr (VInt i)
      | (VString _, JString s) \<Rightarrow> Inr (VString s)
      | _ \<Rightarrow> Inl (''json: cannot unmarshal value into Go struct field '' @ name))"

text \<open>The members of the object are applied in their order, so that a repeated key ends
  with its last value.\<close>

fun setMember :: "svalue \<Rightarrow> string \<Rightarrow> jvalue \<Rightarrow> string + svalue" where
  "setMember [] key j = Inr []"
| "setMember ((name, old) # fs) key j =
     (if name = key then
        (case assignMember name old j of
           Inl e \<Rightarrow> Inl e
         | Inr v \<Rightarrow> Inr ((name, v) # fs))
      else (case setMember fs key j of
              Inl e \<Rightarrow> Inl e
            | Inr fs' \<Rightarrow> Inr ((name, old) # fs')))"

fun unmarshalObject :: "svalue \<Rightarrow> (string \<times> jvalue) list \<Rightarrow> string + svalue" where
  "unmarshalObject fs [] = Inr fs"
| "unmarshalObject fs ((key, j) # ms) =
     (case setMember fs key j of
        Inl e \<Rightarrow> Inl e
      | Inr fs' \<Rightarrow> unmarshalObject fs' ms)"

definition jsonDecode :: "json_text option \<Rightarrow> argument \<Rightarrow> (string + argument) \<times> json_text option" where
  "jsonDecode bd arg =
     (case bd of
        None \<Rightarrow> (Inl ''EOF'', None)
      | Some (Rejected e) \<Rightarrow> (Inl e, None)
      | Some (Object ms) \<Rightarrow>
          (case content arg of
             StructVal fs \<Rightarrow> (case unmarshalObject fs ms of
                                Inl e \<Rightarrow> (Inl e, None)
                              | Inr fs' \<Rightarrow> (Inr (arg\<lparr>content := StructVal fs'\<rparr>), None))
           | OtherVal \<Rightarrow>
               (if kindOf (pointee arg) = KInterface \<or> kindOf (pointee arg) = KMap
                then (Inr arg, None)
                else (Inl ''json: cannot unmarshal object into Go value'', None))))"

section \<open>Requests and argument binding\<close>

text \<open>
  Of \<^verbatim>\<open>*http.Request\<close> the model keeps what \<^verbatim>\<open>parseArgument\<close> and
  \<^verbatim>\<open>ServeHTTPWithParams\<close> read or change: the method, the \<^verbatim>\<open>Content-Type\<close> header,
  the field \<^verbatim>\<open>r.Form\<close> (\<open>None\<close> while it is \<^verbatim>\<open>nil\<close>), whether \<^verbatim>\<open>r.MultipartForm\<close> is
  set, the unread body, and the values stored in the request's context.  What the
  parsing of the query and of a form body computes is net/http's business and is given
  with the request: \<open>parseFormResult\<close> is the error, if any, that the first
  \<^verbatim>\<open>r.ParseForm()\<close> returns together with the values it leaves in \<^verbatim>\<open>r.Form\<close> (a query
  with a bad pair gives an error and the values of the good pairs), and
  \<open>readMultipart\<close> is what reading a multipart body gives, an error or the values of
  \<^verbatim>\<open>r.Form\<close> with the body's fields added.
\<close>

datatype ctxvalue = LoggerValue | OtherValue

record request =
  reqMethod :: string
  reqContentType :: string
  reqForm :: "url_values option"
  parseFormResult :: "string option \<times> url_values"
  reqMultipartParsed :: bool
  readMultipart :: "string + url_values"
  reqBody :: "json_text option"
  contextValue :: "string \<rightharpoonup> ctxvalue"

type_synonym params = "(string \<times> string) list"

text \<open>The loop \<^verbatim>\<open>paramValues.Set(param.Key, param.Value)\<close>: a later parameter of the
  same name replaces an earlier one.\<close>

fun paramValues :: "url_values \<Rightarrow> params \<Rightarrow> url_values" where
  "paramValues vs [] = vs"
| "paramValues vs ((k, v) # ps) = paramValues (vs(k \<mapsto> v)) ps"

text \<open>\<^verbatim>\<open>r.ParseForm()\<close> parses once: with \<^verbatim>\<open>r.Form\<close> set it returns no error and
  leaves the request as it is.  \<^verbatim>\<open>r.ParseMultipartForm\<close> (as in the Go version of
  \<^verbatim>\<open>go.mod\<close>) calls \<^verbatim>\<open>ParseForm\<close> when \<^verbatim>\<open>r.Form\<close> is \<^verbatim>\<open>nil\<close> and returns its error;
  it returns at once when the multipart form was read before, and else reads it.  Both
  return the error and the request as they leave it.\<close>

definition ParseForm :: "request \<Rightarrow> string option \<times> request" where
  "ParseForm r =
     (case reqForm r of
        Some form \<Rightarrow> (None, r)
      | None \<Rightarrow> (fst (parseFormResult r), r\<lparr>reqForm := Some (snd (parseFormResult r))\<rparr>))"

definition ParseMultipartForm :: "request \<Rightarrow> string option \<times> request" where
  "ParseMultipartForm r =
     (case (if reqForm r = None then ParseForm r else (None, r)) of
        (Some err, r1) \<Rightarrow> (Some err, r1)
      | (None, r1) \<Rightarrow>
          if reqMultipartParsed r1 then (None, r1)
          else (case readMultipart r1 of
                  Inl err \<Rightarrow> (Some err, r1)
                | Inr form \<Rightarrow> (None, r1\<lparr>reqForm := Some form, reqMultipartParsed := True\<rparr>)))"

text \<open>\<^verbatim>\<open>r.Form\<close> as the form decoder reads it: a \<^verbatim>\<open>nil\<close> map has no values.\<close>

definition formOf :: "request \<Rightarrow> url_values" where
  "formOf r = (case reqForm r of Some form \<Rightarrow> form | None \<Rightarrow> Map.empty)"

text \<open>\<^verbatim>\<open>parseArgument\<close> returns the error or the populated argument, and the request as
  the passes left it: with \<^verbatim>\<open>r.Form\<close> filled and the body read by the JSON pass.
  \<open>bypass\<close> is the handler's \<^verbatim>\<open>bypassRequestBody\<close>; \<open>ps\<close> is \<open>None\<close> for \<^verbatim>\<open>nil\<close>
  parameters.\<close>

definition jsonApplicable :: "bool \<Rightarrow> request \<Rightarrow> bool" where
  "jsonApplicable bypass r =
     (ToUpper (reqMethod r) = ''POST'' \<and> \<not> bypass \<and>
      HasPrefix (ToLower (reqContentType r)) ''application/json'')"

definition paramsPass :: "params option \<Rightarrow> argument \<Rightarrow> string + argument" where
  "paramsPass ps arg =
     (case ps of
        None \<Rightarrow> Inr arg
      | Some l \<Rightarrow> formDecode arg (paramValues Map.empty l))"

definition jsonPass :: "bool \<Rightarrow> request \<Rightarrow> argument \<Rightarrow> (string + argument) \<times> request" where
  "jsonPass bypass r arg =
     (if jsonApplicable bypass r then
        (case jsonDecode (reqBody r) arg of
           (res, rest) \<Rightarrow> (res, r\<lparr>reqBody := rest\<rparr>))
      else (Inr arg, r))"

definition formPass :: "request \<Rightarrow> argument \<Rightarrow> (string + argument) \<times> request" where
  "formPass r arg =
     (case (if ToUpper (reqMethod r) = ''POST'' \<and> ToLower (reqContentType r) = ''multipart/form-data''
            then ParseMultipartForm r else ParseForm r) of
        (Some err, r1) \<Rightarrow> (Inl err, r1)
      | (None, r1) \<Rightarrow> (formDecode arg (formOf r1), r1))"

definition parseArgument :: "bool \<Rightarrow> request \<Rightarrow> params option \<Rightarrow> argument \<Rightarrow> (string + argument) \<times> request" where
  "parseArgument bypass r ps arg =
     (case formPass r arg of
        (Inl e, r1) \<Rightarrow> (Inl e, r1)
      | (Inr a1, r1) \<Rightarrow>
          (case jsonPass bypass r1 a1 of
             (Inl e, r2) \<Rightarrow> (Inl e, r2)
           | (Inr a2, r2) \<Rightarrow> (paramsPass ps a2, r2)))"

section \<open>Handlers\<close>

text \<open>
  A handler is user code.  What one call of it does is represented by its run: the
  actions it performs through the \<^verbatim>\<open>ServiceMethodContext\<close> (the status setter, the body
  writer, the response header map), the content it leaves in the argument it was given, and
  how the call ends.  The status setter can panic (see the response writer below): after
  \<open>SetStatus\<close> the panic ends the handler's call, \<open>SetStatusRecovering\<close> is a call of
  the setter whose panic the handler recovers before it goes on.  A call ends by returning its result values or by panicking; a panic
  carries its value as \<^verbatim>\<open>%s\<close> prints it, and \<open>Panics None\<close> is \<^verbatim>\<open>panic(nil)\<close>, for which
  \<^verbatim>\<open>recover()\<close> returns \<^verbatim>\<open>nil\<close> in the Go version that \<^verbatim>\<open>go.mod\<close> declares (1.12).
  A result value is a struct pointer, possibly \<^verbatim>\<open>nil\<close>, or a value of type \<^verbatim>\<open>error\<close>,
  possibly \<^verbatim>\<open>nil\<close>, given by its message.
\<close>

datatype effect =
    SetStatus int
  | SetStatusRecovering int
  | BodyWrite string
  | HeaderAssign string "string list"
  | HeaderDelete string

datatype rvalue = PtrValue "svalue option" | ErrorValue "string option"

datatype completion = Returns "rvalue list" | Panics "string option"

record handler_run =
  effects :: "effect list"
  argAfter :: goval
  completion :: completion

record method_value =
  funcType :: gotype
  behaviour :: "request \<Rightarrow> goval \<Rightarrow> handler_run"

record serviceMethod =
  mvalue :: method_value
  argType :: gotype

text \<open>The field \<^verbatim>\<open>method\<close> of \<^verbatim>\<open>ServiceHandler\<close> is \<open>smethod\<close> here.\<close>

record ServiceHandler =
  loggerContextKey :: "string option"
  smethod :: serviceMethod
  bypassRequestBody :: bool

text \<open>\<^verbatim>\<open>NewServiceHandler\<close>: the callable is \<open>None\<close> for a \<^verbatim>\<open>nil\<close> interface, whose
  \<^verbatim>\<open>reflect.TypeOf\<close> is \<^verbatim>\<open>nil\<close>.  \<^verbatim>\<open>methodType.In(1)\<close> is read only after the check
  has found a function of two parameters, so the \<open>None\<close> branch below is never taken.\<close>

definition NewServiceHandler :: "method_value option \<Rightarrow> string option \<Rightarrow> bool \<Rightarrow> string + ServiceHandler" where
  "NewServiceHandler m key bypass =
     (case checkServiceMethodPrototype (map_option funcType m) of
        Some err \<Rightarrow> Inl err
      | None \<Rightarrow>
          (case m of
             None \<Rightarrow> Inl ''you should provide a function or object method''
           | Some mv \<Rightarrow>
               Inr \<lparr>loggerContextKey = key,
                    smethod = \<lparr>mvalue = mv, argType = insOf (funcType mv) ! 1\<rparr>,
                    bypassRequestBody = bypass\<rparr>))"

section \<open>The response writer\<close>

text \<open>
  \<^verbatim>\<open>http.ResponseWriter\<close> is an interface; the model follows its contract as the writers
  of net/http and of httptest implement it.  The writer has the header map, which the
  handler and the core change, and what has been sent: nothing, or the status and the
  headers that the first \<^verbatim>\<open>WriteHeader\<close> or \<^verbatim>\<open>Write\<close> committed.  A change of the
  header map after that is not sent.  \<^verbatim>\<open>WriteHeader\<close> after the status was sent does
  nothing; before, it panics on a code below 100 or above 999 and else sends the status
  with the header map of that moment.  \<^verbatim>\<open>Write\<close> first sends 200 with the header map
  when nothing was sent.  The calls that returned are also kept in their order.
  \<^verbatim>\<open>Header.Set\<close> stores a one-element list under the canonical form of the key.
\<close>

datatype rw_call = WriteHeader int | Write string

record response_writer =
  header :: "string \<rightharpoonup> string list"
  calls :: "rw_call list"
  sent :: "(int \<times> (string \<rightharpoonup> string list)) option"

definition isLetter :: "char \<Rightarrow> bool" where
  "isLetter c = (let n = (of_char c :: nat) in (65 \<le> n \<and> n \<le> 90) \<or> (97 \<le> n \<and> n \<le> 122))"

definition validHeaderFieldByte :: "char \<Rightarrow> bool" where
  "validHeaderFieldByte c = (isLetter c \<or> isDigit c \<or> c \<in> set ''!#$%&*+-.^_`|~'' \<or> of_char c = (39 :: nat))"

fun canonicalLetters :: "bool \<Rightarrow> string \<Rightarrow> string" where
  "canonicalLetters up [] = []"
| "canonicalLetters up (c # cs) =
     (if up then upperChar c else lowerChar c) # canonicalLetters (c = CHR ''-'') cs"

definition CanonicalMIMEHeaderKey :: "string \<Rightarrow> string" where
  "CanonicalMIMEHeaderKey k = (if list_all validHeaderFieldByte k then canonicalLetters True k else k)"

definition headerSet :: "string \<Rightarrow> string \<Rightarrow> response_writer \<Rightarrow> response_writer" where
  "headerSet k v w = w\<lparr>header := (header w)(CanonicalMIMEHeaderKey k \<mapsto> [v])\<rparr>"

definition validStatus :: "int \<Rightarrow> bool" where
  "validStatus code = (100 \<le> code \<and> code \<le> 999)"

text \<open>\<open>Some\<close> in the first component is a panic, with its message; the writer is then
  as it was.\<close>

definition rwWriteHeader :: "int \<Rightarrow> response_writer \<Rightarrow> string option \<times> response_writer" where
  "rwWriteHeader code w =
     (case sent w of
        Some s \<Rightarrow> (None, w\<lparr>calls := calls w @ [WriteHeader code]\<rparr>)
      | None \<Rightarrow>
          if \<not> validStatus code then (Some (''invalid WriteHeader code '' @ itoa code), w)
          else (None, w\<lparr>calls := calls w @ [WriteHeader code], sent := Some (code, header w)\<rparr>))"

definition rwWrite :: "string \<Rightarrow> response_writer \<Rightarrow> response_writer" where
  "rwWrite bytes w =
     w\<lparr>calls := calls w @ [Write bytes],
       sent := (case sent w of None \<Rightarrow> Some (200, header w) | Some s \<Rightarrow> Some s)\<rparr>"

definition setResponseHeader :: "response_writer \<Rightarrow> response_writer" where
  "setResponseHeader w =
     headerSet ''Content-Type'' ''application/json'' (headerSet ''x-content-type-options'' ''nosniff'' w)"

section \<open>JSON output\<close>

text \<open>
  The values the core hands to the JSON encoder are Go interface values: the \<^verbatim>\<open>nil\<close>
  interface, a struct pointer (a \<^verbatim>\<open>nil\<close> pointer inside an interface is not the \<^verbatim>\<open>nil\<close>
  interface), an error value, or a \<^verbatim>\<open>*FormattedResponse\<close>.  \<^verbatim>\<open>encoding/json\<close> is a
  library: how it renders a string literal and a user's struct is taken from the
  environment (\<open>jsonQuote\<close>, \<open>jsonMarshal\<close>, the latter able to fail); a \<^verbatim>\<open>nil\<close>
  pointer and the \<^verbatim>\<open>nil\<close> interface are rendered as \<^verbatim>\<open>null\<close>.
\<close>

record panicStack =
  Panic :: string
  Stack :: string

datatype fdata = DataString string | DataPanic panicStack

record FormattedResponse =
  Code :: int
  Msg :: string
  Data :: fdata

datatype iface =
    NilInterface
  | PtrInterface "svalue option"
  | ErrorInterface string
  | EnvelopeInterface FormattedResponse

record gotime =
  year :: nat
  month :: nat
  day :: nat
  hour :: nat
  minute :: nat
  second :: nat
  nanosecond :: nat

text \<open>The environment of one request: the clock readings (\<^verbatim>\<open>time.Now()\<close> before the
  call, and the time the call took, in nanoseconds), the text \<^verbatim>\<open>debug.Stack()\<close> returns
  at a recovery, and the library functions named above; \<open>formatSeconds\<close> is
  \<^verbatim>\<open>strconv.FormatFloat(duration.Seconds(), 'f', -1, 64)\<close>.\<close>

record environment =
  beginTime :: gotime
  duration :: int
  stackTrace :: string
  jsonQuote :: "string \<Rightarrow> string"
  jsonMarshal :: "goval \<Rightarrow> string + string"
  formatSeconds :: "int \<Rightarrow> string"

definition dq :: char where
  "dq = char_of (34 :: nat)"

definition newline :: char where
  "newline = char_of (10 :: nat)"

definition jsonKey :: "string \<Rightarrow> string" where
  "jsonKey k = dq # k @ [dq, CHR '':'']"

definition marshalData :: "environment \<Rightarrow> fdata \<Rightarrow> string" where
  "marshalData env d =
     (case d of
        DataString s \<Rightarrow> jsonQuote env s
      | DataPanic p \<Rightarrow>
          ''{'' @ jsonKey ''panic'' @ jsonQuote env (Panic p) @ '','' @
          jsonKey ''stack'' @ jsonQuote env (Stack p) @ ''}'')"

definition marshalEnvelope :: "environment \<Rightarrow> FormattedResponse \<Rightarrow> string" where
  "marshalEnvelope env resp =
     ''{'' @ jsonKey ''code'' @ itoa (Code resp) @ '','' @
     jsonKey ''msg'' @ jsonQuote env (Msg resp) @ '','' @
     jsonKey ''data'' @ marshalData env (Data resp) @ ''}''"

definition jsonMarshalInterface :: "environment \<Rightarrow> iface \<Rightarrow> string + string" where
  "jsonMarshalInterface env v =
     (case v of
        NilInterface \<Rightarrow> Inr ''null''
      | PtrInterface None \<Rightarrow> Inr ''null''
      | PtrInterface (Some s) \<Rightarrow> jsonMarshal env (StructVal s)
      | ErrorInterface m \<Rightarrow> Inr ''{}''
      | EnvelopeInterface resp \<Rightarrow> Inr (marshalEnvelope env resp))"

text \<open>\<^verbatim>\<open>json.NewEncoder(w).Encode(data)\<close> writes the rendering and a newline in one
  \<^verbatim>\<open>Write\<close>, or nothing when the rendering fails; the core drops the error.\<close>

definition jsonEncode :: "environment \<Rightarrow> iface \<Rightarrow> response_writer \<Rightarrow> response_writer" where
  "jsonEncode env v w =
     (case jsonMarshalInterface env v of
        Inl e \<Rightarrow> w
      | Inr bytes \<Rightarrow> rwWrite (bytes @ [newline]) w)"

definition writeResponse :: "environment \<Rightarrow> response_writer \<Rightarrow> iface \<Rightarrow> response_writer" where
  "writeResponse env w d = jsonEncode env d (setResponseHeader w)"

text \<open>\<^verbatim>\<open>writeErrorResponse\<close> returns the panic of its \<^verbatim>\<open>w.WriteHeader(resp.Code)\<close>, if
  there is one, and the writer; after a panic the headers are set and nothing else is
  done.\<close>

definition writeErrorResponse ::
  "environment \<Rightarrow> response_writer \<Rightarrow> FormattedResponse \<Rightarrow> string option \<times> response_writer" where
  "writeErrorResponse env w resp =
     (case rwWriteHeader (Code resp) (setResponseHeader w) of
        (Some p, w') \<Rightarrow> (Some p, w')
      | (None, w') \<Rightarrow> (None, jsonEncode env (EnvelopeInterface resp) w'))"

section \<open>Time stamps\<close>

text \<open>\<^verbatim>\<open>beginTime.Format("2006-01-02 15:04:05.999999999")\<close>: the date and the time of
  day with zero-padded fields, then the fraction of the second, which the layout's nines
  print without trailing zeros and leave out, with its point, when it is zero.\<close>

definition zeroPad :: "nat \<Rightarrow> nat \<Rightarrow> string" where
  "zeroPad w n = replicate (w - length (natDigits n)) CHR ''0'' @ natDigits n"

definition trimZeros :: "string \<Rightarrow> string" where
  "trimZeros ds = rev (dropWhile (\<lambda>c. c = CHR ''0'') (rev ds))"

definition formatFraction :: "nat \<Rightarrow> string" where
  "formatFraction ns = (if ns = 0 then [] else CHR ''.'' # trimZeros (zeroPad 9 ns))"

definition formatTime :: "gotime \<Rightarrow> string" where
  "formatTime t =
     zeroPad 4 (year t) @ ''-'' @ zeroPad 2 (month t) @ ''-'' @ zeroPad 2 (day t) @ '' '' @
     zeroPad 2 (hour t) @ '':'' @ zeroPad 2 (minute t) @ '':'' @ zeroPad 2 (second t) @
     formatFraction (nanosecond t)"

section \<open>Invocation\<close>

text \<open>
  \<^verbatim>\<open>reflect.Value.Call\<close> panics, before the function runs, when the number of arguments
  or the type of one of them does not fit the function's parameters.  A value is
  assignable to a parameter of its own type and to \<^verbatim>\<open>interface{}\<close>; method sets are not
  represented, so no value counts as an implementation of an interface with methods.
  For a variadic function the arguments after the fixed ones must fit the element type
  of the last parameter.
\<close>

definition contextType :: gotype where
  "contextType = TPtr (TStruct ''ServiceMethodContext'' [])"

definition assignableTo :: "gotype \<Rightarrow> gotype \<Rightarrow> bool" where
  "assignableTo v t = (v = t \<or> t = TInterface [] [])"

definition callFits :: "gotype \<Rightarrow> gotype list \<Rightarrow> bool" where
  "callFits ft ins =
     (if isVariadic ft then
        (let n = length (insOf ft) - 1 in
           n \<le> length ins \<and>
           list_all2 assignableTo (take n ins) (take n (insOf ft)) \<and>
           (case elemOf (last (insOf ft)) of
              None \<Rightarrow> False
            | Some e \<Rightarrow> list_all (\<lambda>x. assignableTo x e) (drop n ins)))
      else list_all2 assignableTo ins (insOf ft))"

text \<open>The state one request threads through the call: the \<^verbatim>\<open>respStatus\<close> variable
  that the status setter's closure captures, the response writer, the argument, and
  whether the handler's body was entered.\<close>

record call_state =
  respStatus :: int
  writer :: response_writer
  argNow :: argument
  handlerRan :: bool

text \<open>The closure \<^verbatim>\<open>ResponseStatusSetter\<close> assigns \<^verbatim>\<open>respStatus\<close> and then calls
  \<^verbatim>\<open>rw.WriteHeader\<close>, which can panic; the other actions go to the writer and its header
  map directly.  \<open>Some\<close> in the first component is a panic that the handler does not
  recover.\<close>

fun applyEffect :: "call_state \<Rightarrow> effect \<Rightarrow> string option \<times> call_state" where
  "applyEffect st (SetStatus status) =
     (case rwWriteHeader status (writer st) of
        (p, w) \<Rightarrow> (p, st\<lparr>respStatus := status, writer := w\<rparr>))"
| "applyEffect st (SetStatusRecovering status) =
     (case rwWriteHeader status (writer st) of
        (p, w) \<Rightarrow> (None, st\<lparr>respStatus := status, writer := w\<rparr>))"
| "applyEffect st (BodyWrite bytes) = (None, st\<lparr>writer := rwWrite bytes (writer st)\<rparr>)"
| "applyEffect st (HeaderAssign k vs) =
     (None, st\<lparr>writer := (writer st)\<lparr>header := (header (writer st))(k \<mapsto> vs)\<rparr>\<rparr>)"
| "applyEffect st (HeaderDelete k) =
     (None, st\<lparr>writer := (writer st)\<lparr>header := (header (writer st))(k := None)\<rparr>\<rparr>)"

text \<open>The actions of a run in their order, up to the first panic.\<close>

fun runEffects :: "call_state \<Rightarrow> effect list \<Rightarrow> string option \<times> call_state" where
  "runEffects st [] = (None, st)"
| "runEffects st (e # es) =
     (case applyEffect st e of
        (Some p, st') \<Rightarrow> (Some p, st')
      | (None, st') \<Rightarrow> runEffects st' es)"

text \<open>The call: a panic of an action ends it in place of the run's own end.\<close>

definition reflectCall :: "method_value \<Rightarrow> request \<Rightarrow> call_state \<Rightarrow> completion \<times> call_state" where
  "reflectCall m r st =
     (if \<not> callFits (funcType m) [contextType, typeOfArgument (argNow st)] then
        (Panics (Some ''reflect: Call using an argument of a type the function does not take''), st)
      else
        (let run = behaviour m r (content (argNow st)) in
           (case runEffects (st\<lparr>handlerRan := True\<rparr>) (effects run) of
              (p, st') \<Rightarrow>
                ((case p of Some info \<Rightarrow> Panics (Some info) | None \<Rightarrow> completion run),
                 st'\<lparr>argNow := (argNow st')\<lparr>content := argAfter run\<rparr>\<rparr>))))"

text \<open>\<^verbatim>\<open>doServiceMethodCall\<close>: the deferred function builds a \<^verbatim>\<open>panicStack\<close> only when
  \<^verbatim>\<open>recover()\<close> is not \<^verbatim>\<open>nil\<close>.  After any panic \<^verbatim>\<open>out\<close> is still \<^verbatim>\<open>nil\<close>, the empty
  list.\<close>

definition doServiceMethodCall ::
  "environment \<Rightarrow> serviceMethod \<Rightarrow> request \<Rightarrow> call_state \<Rightarrow> (rvalue list \<times> panicStack option) \<times> call_state" where
  "doServiceMethodCall env sm r st =
     (case reflectCall (mvalue sm) r st of
        (Returns out, st') \<Rightarrow> ((out, None), st')
      | (Panics None, st') \<Rightarrow> (([], None), st')
      | (Panics (Some panicInfo), st') \<Rightarrow>
          (([], Some \<lparr>Panic = panicInfo, Stack = stackTrace env\<rparr>), st'))"

text \<open>\<^verbatim>\<open>Value.Interface()\<close> of a result: a pointer, \<^verbatim>\<open>nil\<close> or not, becomes an interface
  value that is not \<^verbatim>\<open>nil\<close>; a value of interface type becomes what it holds.  The type
  assertion \<^verbatim>\<open>.(error)\<close> panics on a value that is no error.\<close>

fun valueInterface :: "rvalue \<Rightarrow> iface" where
  "valueInterface (PtrValue p) = PtrInterface p"
| "valueInterface (ErrorValue None) = NilInterface"
| "valueInterface (ErrorValue (Some m)) = ErrorInterface m"

fun assertError :: "iface \<Rightarrow> string + string" where
  "assertError (ErrorInterface m) = Inr m"
| "assertError v = Inl ''interface conversion: interface {} is not error''"

text \<open>The branch on \<^verbatim>\<open>methodPanic\<close> and \<^verbatim>\<open>len(out)\<close>.  \<open>Inl\<close> is a panic raised by
  \<^verbatim>\<open>ServeHTTPWithParams\<close> itself, which nothing in it recovers, with its message and
  the writer as the panic leaves it.  The message of the last
  branch is the one for an empty \<^verbatim>\<open>out\<close>, which is what a call leaves behind whose panic
  went unnoticed; the values of a longer list are not printed here.\<close>

record verdict =
  vWriter :: response_writer
  methodError :: "string option"
  methodReturn :: iface
  respData :: iface

definition errorSlot :: "rvalue \<Rightarrow> string + string option" where
  "errorSlot v =
     (if valueInterface v \<noteq> NilInterface then
        (case assertError (valueInterface v) of Inl p \<Rightarrow> Inl p | Inr m \<Rightarrow> Inr (Some m))
      else Inr None)"

definition classify ::
  "environment \<Rightarrow> response_writer \<Rightarrow> rvalue list \<Rightarrow> panicStack option \<Rightarrow>
     (string \<times> response_writer) + verdict" where
  "classify env w out methodPanic =
     (case methodPanic of
        Some p \<Rightarrow>
          (let resp = \<lparr>Code = 500, Msg = ''service method panicked'', Data = DataPanic p\<rparr>
           in (case writeErrorResponse env w resp of
                 (Some q, w') \<Rightarrow> Inl (q, w')
               | (None, w') \<Rightarrow>
                   Inr \<lparr>vWriter = w', methodError = None,
                        methodReturn = NilInterface, respData = EnvelopeInterface resp\<rparr>))
      | None \<Rightarrow>
          (case out of
             [o0, o1] \<Rightarrow>
               (case errorSlot o1 of
                  Inl p \<Rightarrow> Inl (p, w)
                | Inr e \<Rightarrow> Inr \<lparr>vWriter = w, methodError = e,
                               methodReturn = valueInterface o0, respData = NilInterface\<rparr>)
           | [o0] \<Rightarrow>
               (case errorSlot o0 of
                  Inl p \<Rightarrow> Inl (p, w)
                | Inr e \<Rightarrow> Inr \<lparr>vWriter = w, methodError = e,
                               methodReturn = NilInterface, respData = NilInterface\<rparr>)
           | _ \<Rightarrow> Inl (''return values error: []'', w)))"

text \<open>The response for a classified outcome: the error envelope, the raw value, or
  nothing.  The envelope's \<^verbatim>\<open>WriteHeader\<close> can panic, and the panic leaves
  \<^verbatim>\<open>ServeHTTPWithParams\<close>.\<close>

definition respond ::
  "environment \<Rightarrow> int \<Rightarrow> verdict \<Rightarrow> (string \<times> response_writer) + verdict" where
  "respond env status v =
     (case methodError v of
        Some m \<Rightarrow>
          (let resp = \<lparr>Code = (if status = 200 then 500 else status),
                       Msg = ''service method error'', Data = DataString m\<rparr>
           in (case writeErrorResponse env (vWriter v) resp of
                 (Some q, w') \<Rightarrow> Inl (q, w')
               | (None, w') \<Rightarrow> Inr (v\<lparr>respData := EnvelopeInterface resp, vWriter := w'\<rparr>)))
      | None \<Rightarrow>
          (if methodReturn v \<noteq> NilInterface then
             Inr (v\<lparr>respData := methodReturn v,
                    vWriter := writeResponse env (vWriter v) (methodReturn v)\<rparr>)
           else Inr v))"

section \<open>Serving a request\<close>

text \<open>
  What one run of \<^verbatim>\<open>ServeHTTPWithParams\<close> leaves behind: the response writer, whether
  the handler's body was entered, the fields given to the logger's \<^verbatim>\<open>Record\<close> in their
  order, a panic that left the function (\<open>None\<close> when it returned), and the request.
  The tracer (\<^verbatim>\<open>golang.org/x/net/trace\<close>) only observes and is left out.
\<close>

record served =
  response :: response_writer
  invoked :: bool
  recorded :: "(string \<times> string) list"
  escaped :: "string option"
  requestAfter :: request

definition logFields ::
  "environment \<Rightarrow> ServiceHandler \<Rightarrow> request \<Rightarrow> argument \<Rightarrow> iface \<Rightarrow> (string \<times> string) list \<times> string option" where
  "logFields env h r arg data =
     (case loggerContextKey h of
        None \<Rightarrow> ([], None)
      | Some key \<Rightarrow>
          (case contextValue r key of
             None \<Rightarrow> ([], None)
           | Some OtherValue \<Rightarrow> ([], None)
           | Some LoggerValue \<Rightarrow>
               (case jsonMarshal env (content arg) of
                  Inl err \<Rightarrow> ([], Some err)
                | Inr marshaledArgs \<Rightarrow>
                    (case jsonMarshalInterface env data of
                       Inl err \<Rightarrow> ([], Some err)
                     | Inr marshaledData \<Rightarrow>
                         ([(''args'', marshaledArgs),
                           (''resp'', marshaledData),
                           (''methodBegin'', formatTime (beginTime env)),
                           (''methodDuration'', formatSeconds env (duration env))], None)))))"

definition ServeHTTPWithParams ::
  "environment \<Rightarrow> ServiceHandler \<Rightarrow> response_writer \<Rightarrow> request \<Rightarrow> params option \<Rightarrow> served" where
  "ServeHTTPWithParams env h rw r ps =
     (case elemOf (argType (smethod h)) of
        None \<Rightarrow>
          \<lparr>response = rw, invoked = False, recorded = [],
           escaped = Some ''reflect: Elem of invalid type'', requestAfter = r\<rparr>
      | Some et \<Rightarrow>
          (case parseArgument (bypassRequestBody h) r ps (reflectNew et) of
             (Inl err, r') \<Rightarrow>
               (case writeErrorResponse env rw
                       \<lparr>Code = 400, Msg = ''parse argument failed'', Data = DataString err\<rparr> of
                  (p, w) \<Rightarrow>
                    \<lparr>response = w, invoked = False, recorded = [], escaped = p,
                     requestAfter = r'\<rparr>)
           | (Inr arg, r') \<Rightarrow>
               (case doServiceMethodCall env (smethod h) r'
                       \<lparr>respStatus = 200, writer = rw, argNow = arg, handlerRan = False\<rparr> of
                  ((out, methodPanic), st) \<Rightarrow>
                    (case classify env (writer st) out methodPanic of
                       Inl (p, w) \<Rightarrow>
                         \<lparr>response = w, invoked = handlerRan st, recorded = [],
                          escaped = Some p, requestAfter = r'\<rparr>
                     | Inr v \<Rightarrow>
                         (case respond env (respStatus st) v of
                            Inl (p, w) \<Rightarrow>
                              \<lparr>response = w, invoked = handlerRan st, recorded = [],
                               escaped = Some p, requestAfter = r'\<rparr>
                          | Inr v' \<Rightarrow>
                              (let lg = logFields env h r' (argNow st) (respData v')
                               in \<lparr>response = vWriter v', invoked = handlerRan st,
                                    recorded = fst lg, escaped = snd lg,
                                    requestAfter = r'\<rparr>))))))"

definition ServeHTTP :: "environment \<Rightarrow> ServiceHandler \<Rightarrow> response_writer \<Rightarrow> request \<Rightarrow> served" where
  "ServeHTTP env h respWriter req = ServeHTTPWithParams env h respWriter req None"

section \<open>The specification's wording, for comparison\<close>

text \<open>The signature rule as the specification words it: a function of exactly two
  parameters, the first \<^verbatim>\<open>*ServiceMethodContext\<close>, the second a struct pointer, a slice
  or a map with string keys and empty-interface values, returning \<^verbatim>\<open>(error)\<close> or
  \<^verbatim>\<open>(*struct, error)\<close>.\<close>

definition specEmptyInterface :: "gotype \<Rightarrow> bool" where
  "specEmptyInterface t = (case t of TInterface n ms \<Rightarrow> ms = [] | _ \<Rightarrow> False)"

definition specSecondParameter :: "gotype \<Rightarrow> bool" where
  "specSecondParameter t =
     (case t of
        TPtr e \<Rightarrow> kindOf e = KStruct
      | TSlice e \<Rightarrow> True
      | TMap k v \<Rightarrow> kindOf k = KString \<and> specEmptyInterface v
      | _ \<Rightarrow> False)"

definition specErrorType :: "gotype \<Rightarrow> bool" where
  "specErrorType t = (kindOf t = KInterface \<and> nameOf t = ''error'')"

definition specValidSignature :: "gotype option \<Rightarrow> bool" where
  "specValidSignature mt =
     (case mt of
        Some (TFunc ins outs v) \<Rightarrow>
          (case ins of
             [p0, p1] \<Rightarrow>
               isTypeServiceMethodContext p0 \<and> specSecondParameter p1 \<and>
               (case outs of
                  [e] \<Rightarrow> specErrorType e
                | [s, e] \<Rightarrow> isStructPointer s \<and> specErrorType e
                | _ \<Rightarrow> False)
           | _ \<Rightarrow> False)
      | _ \<Rightarrow> False)"

text \<open>The time stamp format as the specification words it, \<^verbatim>\<open>YYYY-MM-DD HH:MM:SS.ffffff\<close>:
  twenty-six characters, digits except for the separators at their places.\<close>

definition specSeparatorAt :: "nat \<Rightarrow> char option" where
  "specSeparatorAt i =
     (if i = 4 \<or> i = 7 then Some CHR ''-''
      else if i = 10 then Some CHR '' ''
      else if i = 13 \<or> i = 16 then Some CHR '':''
      else if i = 19 then Some CHR ''.''
      else None)"

definition specMicrosecondFormat :: "string \<Rightarrow> bool" where
  "specMicrosecondFormat s =
     (length s = 26 \<and>
      list_all (\<lambda>(i, c). case specSeparatorAt i of Some sep \<Rightarrow> c = sep | None \<Rightarrow> isDigit c)
        (zip [0..<26] s))"

section \<open>Observations used by the theorems\<close>

text \<open>The statuses given to the status setter in a run, in the order of the calls.\<close>

fun statusCalls :: "effect list \<Rightarrow> int list" where
  "statusCalls [] = []"
| "statusCalls (SetStatus status # es) = status # statusCalls es"
| "statusCalls (SetStatusRecovering status # es) = status # statusCalls es"
| "statusCalls (e # es) = statusCalls es"

text \<open>The status and the headers of the response as the client gets it: what was sent,
  or, when the handler returns with nothing sent, 200 and the header map, which the
  server then sends.\<close>

definition sentStatus :: "response_writer \<Rightarrow> int" where
  "sentStatus w = (case sent w of Some (code, hs) \<Rightarrow> code | None \<Rightarrow> 200)"

definition sentHeaders :: "response_writer \<Rightarrow> string \<rightharpoonup> string list" where
  "sentHeaders w = (case sent w of Some (code, hs) \<Rightarrow> hs | None \<Rightarrow> header w)"

definition carriesBothHeaders :: "response_writer \<Rightarrow> bool" where
  "carriesBothHeaders w =
     (sentHeaders w ''X-Content-Type-Options'' = Some [''nosniff''] \<and>
      sentHeaders w ''Content-Type'' = Some [''application/json''])"

text \<open>The way a request ends, read off the same steps as \<^verbatim>\<open>ServeHTTPWithParams\<close>
  takes: a bind failure, a recovered fault, an application error, a return value that the
  code finds not \<^verbatim>\<open>nil\<close>, no value, or a panic that leaves the function.\<close>

datatype ending = BindFailure | Fault | ApplicationError | SuccessWithValue | SuccessNoValue | Escapes

definition endingOf ::
  "environment \<Rightarrow> ServiceHandler \<Rightarrow> response_writer \<Rightarrow> request \<Rightarrow> params option \<Rightarrow> ending" where
  "endingOf env h rw r ps =
     (case elemOf (argType (smethod h)) of
        None \<Rightarrow> Escapes
      | Some et \<Rightarrow>
          (case parseArgument (bypassRequestBody h) r ps (reflectNew et) of
             (Inl err, r') \<Rightarrow> BindFailure
           | (Inr arg, r') \<Rightarrow>
               (case doServiceMethodCall env (smethod h) r'
                       \<lparr>respStatus = 200, writer = rw, argNow = arg, handlerRan = False\<rparr> of
                  ((out, methodPanic), st) \<Rightarrow>
                    (case classify env (writer st) out methodPanic of
                       Inl p \<Rightarrow> Escapes
                     | Inr v \<Rightarrow>
                         (case respond env (respStatus st) v of
                            Inl p \<Rightarrow> Escapes
                          | Inr v' \<Rightarrow>
                              if methodPanic \<noteq> None then Fault
                              else if methodError v \<noteq> None then ApplicationError
                              else if methodReturn v \<noteq> NilInterface then SuccessWithValue
                              else SuccessNoValue)))))"

text \<open>The writer as the core finds it when it turns to the response: the writer it was
  given when binding failed, and else the writer after the handler's call.\<close>

definition writerAtResponse ::
  "environment \<Rightarrow> ServiceHandler \<Rightarrow> response_writer \<Rightarrow> request \<Rightarrow> params option \<Rightarrow> response_writer" where
  "writerAtResponse env h rw r ps =
     (case elemOf (argType (smethod h)) of
        None \<Rightarrow> rw
      | Some et \<Rightarrow>
          (case parseArgument (bypassRequestBody h) r ps (reflectNew et) of
             (Inl err, r') \<Rightarrow> rw
           | (Inr arg, r') \<Rightarrow>
               writer (snd (doServiceMethodCall env (smethod h) r'
                 \<lparr>respStatus = 200, writer = rw, argNow = arg, handlerRan = False\<rparr>))))"


definition firstParseError :: "request \<Rightarrow> string option" where
  "firstParseError r = fst (ParseForm r)"

text \<open>The three sources of one field, and the value a text or a JSON member gives a
  field of a kind.\<close>

fun kindOfVal :: "fval \<Rightarrow> fkind" where
  "kindOfVal (VInt i) = FInt"
| "kindOfVal (VString s) = FString"







text \<open>The names and kinds of a struct value's fields.\<close>

definition shape :: "svalue \<Rightarrow> (string \<times> fkind) list" where
  "shape vs = map (\<lambda>(n, v). (n, kindOfVal v)) vs"

text \<open>The code of the error envelope, from the statuses the handler gave the setter.\<close>

definition envelopeCode :: "int list \<Rightarrow> int" where
  "envelopeCode statuses = (if statuses = [] \<or> last statuses = 200 then 500 else last statuses)"

text \<open>The run of the handler in a request, when the request gets as far as entering the
  handler's body: binding succeeded and \<^verbatim>\<open>Call\<close> accepted the arguments.\<close>

definition handlerRun :: "ServiceHandler \<Rightarrow> request \<Rightarrow> params option \<Rightarrow> handler_run option" where
  "handlerRun h r ps =
     (case elemOf (argType (smethod h)) of
        None \<Rightarrow> None
      | Some et \<Rightarrow>
          (case parseArgument (bypassRequestBody h) r ps (reflectNew et) of
             (Inl err, r') \<Rightarrow> None
           | (Inr arg, r') \<Rightarrow>
               if callFits (funcType (mvalue (smethod h))) [contextType, typeOfArgument arg]
               then Some (behaviour (mvalue (smethod h)) r' (content arg))
               else None))"

text \<open>The calls a handler's actions make on the response writer when none of them
  panics.\<close>

definition effectCalls :: "effect list \<Rightarrow> rw_call list" where
  "effectCalls es =
     concat (map (\<lambda>e. case e of
                         SetStatus s \<Rightarrow> [WriteHeader s]
                       | SetStatusRecovering s \<Rightarrow> [WriteHeader s]
                       | BodyWrite b \<Rightarrow> [Write b]
                       | _ \<Rightarrow> []) es)"

section \<open>Sample handlers and requests, after the repository's tests\<close>

definition errorType :: gotype where
  "errorType = TInterface ''error'' [''Error'']"

definition emptyStruct :: gotype where
  "emptyStruct = TStruct [] []"

definition resultStruct :: gotype where
  "resultStruct = TStruct [] [(''A'', FInt)]"

definition abcStruct :: gotype where
  "abcStruct = TStruct [] [(''A'', FInt), (''B'', FInt), (''C'', FInt)]"

definition twoValueType :: "gotype \<Rightarrow> gotype" where
  "twoValueType argT = TFunc [contextType, argT] [TPtr resultStruct, errorType] False"

definition oneValueType :: "gotype \<Rightarrow> gotype" where
  "oneValueType argT = TFunc [contextType, argT] [errorType] False"

definition handlerOf :: "gotype \<Rightarrow> effect list \<Rightarrow> completion \<Rightarrow> method_value" where
  "handlerOf ft es c =
     \<lparr>funcType = ft, behaviour = (\<lambda>r a. \<lparr>effects = es, argAfter = a, completion = c\<rparr>)\<rparr>"

definition serviceOf :: "method_value \<Rightarrow> string option \<Rightarrow> bool \<Rightarrow> ServiceHandler" where
  "serviceOf m key bypass =
     \<lparr>loggerContextKey = key,
      smethod = \<lparr>mvalue = m, argType = insOf (funcType m) ! 1\<rparr>,
      bypassRequestBody = bypass\<rparr>"

definition postJson :: "url_values \<Rightarrow> json_text option \<Rightarrow> request" where
  "postJson query bd =
     \<lparr>reqMethod = ''POST'', reqContentType = ''application/json'',
      reqForm = None, parseFormResult = (None, query), reqMultipartParsed = False,
      readMultipart = Inl ''no multipart boundary param in Content-Type'',
      reqBody = bd, contextValue = [''aw_test'' \<mapsto> LoggerValue]\<rparr>"

text \<open>A \<^verbatim>\<open>GET\<close> request whose query parses with the error \<open>err\<close>, if any, and gives the
  values \<open>query\<close>.\<close>

definition getRequest :: "string option \<Rightarrow> url_values \<Rightarrow> request" where
  "getRequest err query =
     \<lparr>reqMethod = ''GET'', reqContentType = [],
      reqForm = None, parseFormResult = (err, query), reqMultipartParsed = False,
      readMultipart = Inl ''request Content-Type isn't multipart/form-data'',
      reqBody = None, contextValue = [''aw_test'' \<mapsto> LoggerValue]\<rparr>"

definition newRecorder :: response_writer where
  "newRecorder = \<lparr>header = Map.empty, calls = [], sent = None\<rparr>"

definition sampleTime :: gotime where
  "sampleTime = \<lparr>year = 2021, month = 1, day = 24, hour = 15, minute = 4, second = 5,
                 nanosecond = 123456789\<rparr>"

definition sampleEnv :: environment where
  "sampleEnv =
     \<lparr>beginTime = sampleTime, duration = 1500, stackTrace = ''goroutine 1 [running]'',
      jsonQuote = (\<lambda>s. dq # s @ [dq]), jsonMarshal = (\<lambda>v. Inr ''{}''),
      formatSeconds = (\<lambda>d. ''0.0000015'')\<rparr>"

definition abcQuery :: url_values where
  "abcQuery = [''A'' \<mapsto> ''1'', ''B'' \<mapsto> ''1'', ''C'' \<mapsto> ''1'']"

definition abcBody :: "(string \<times> jvalue) list" where
  "abcBody = [(''B'', JNumber 2), (''C'', JNumber 2)]"

definition brokenBody :: "json_text option" where
  "brokenBody = Some (Rejected ''invalid character '1' looking for beginning of object key string'')"

definition nilService :: ServiceHandler where
  "nilService =
     serviceOf (handlerOf (twoValueType (TPtr emptyStruct)) []
                  (Returns [PtrValue None, ErrorValue None])) (Some ''aw_test'') False"

definition emptyPost :: request where
  "emptyPost = postJson Map.empty (Some (Object []))"

definition statusService :: "int \<Rightarrow> ServiceHandler" where
  "statusService S =
     serviceOf (handlerOf (twoValueType (TPtr emptyStruct)) [SetStatus S]
                  (Returns [PtrValue None, ErrorValue (Some ''expected error'')])) (Some ''aw_test'') False"

definition recoveringService :: "int \<Rightarrow> ServiceHandler" where
  "recoveringService S =
     serviceOf (handlerOf (twoValueType (TPtr emptyStruct)) [SetStatusRecovering S]
                  (Returns [PtrValue None, ErrorValue (Some ''expected error'')])) (Some ''aw_test'') False"

definition quietService :: ServiceHandler where
  "quietService =
     serviceOf (handlerOf (oneValueType (TPtr emptyStruct)) [] (Returns [ErrorValue None]))
       (Some ''aw_test'') False"

definition sliceHandler :: method_value where
  "sliceHandler = handlerOf (oneValueType (TSlice abcStruct)) [] (Returns [ErrorValue None])"

definition abcPost :: request where
  "abcPost = postJson abcQuery (Some (Object abcBody))"

definition abcBound :: argument where
  "abcBound = \<lparr>pointee = abcStruct,
               content = StructVal [(''A'', VInt 1), (''B'', VInt 2), (''C'', VInt 3)]\<rparr>"

text \<open>The request \<^verbatim>\<open>GET /?A=1&B=%zz\<close>: the query has a bad escape in its second pair,
  so the first \<^verbatim>\<open>ParseForm\<close> returns an error and leaves \<open>A = 1\<close> in \<^verbatim>\<open>r.Form\<close>.\<close>

definition badQuery :: request where
  "badQuery = getRequest (Some ''invalid URL escape %zz'') [''A'' \<mapsto> ''1'']"

definition aBound :: argument where
  "aBound = \<lparr>pointee = abcStruct,
             content = StructVal [(''A'', VInt 1), (''B'', VInt 0), (''C'', VInt 0)]\<rparr>"

section \<open>Shared facts\<close>

lemmas validator_defs =
  checkServiceMethodPrototype_def isTypeServiceMethodContext_def isStructPointer_def
  isStringMap_def isSlice_def isCustomResponseBodyFunction_def isDelegatedResponseBodyFunction_def
  elemKindIs_def elemNameIs_def keyKindIs_def

lemma ToUpper_POST: "ToUpper ''POST'' = ''POST''"
  by code_simp

lemma ToUpper_GET: "ToUpper ''GET'' = ''GET''"
  by code_simp

lemma ToLower_json: "ToLower ''application/json'' = ''application/json''"
  by code_simp

lemma jsonApplicable_postJson: "jsonApplicable False (postJson q b)"
  by (simp add: jsonApplicable_def postJson_def ToUpper_POST ToLower_json HasPrefix_def)

lemma jsonApplicable_reqForm [simp]:
  "jsonApplicable bypass (r\<lparr>reqForm := f\<rparr>) = jsonApplicable bypass r"
  by (simp add: jsonApplicable_def)

lemma canonical_nosniff:
  "CanonicalMIMEHeaderKey ''x-content-type-options'' = ''X-Content-Type-Options''"
  by code_simp

lemma canonical_content_type: "CanonicalMIMEHeaderKey ''Content-Type'' = ''Content-Type''"
  by code_simp

lemma NewServiceHandler_serviceOf:
  "NewServiceHandler (Some m) key bypass = Inr h \<Longrightarrow> h = serviceOf m key bypass"
  by (auto simp: NewServiceHandler_def serviceOf_def split: option.splits)

lemma serviceOf_simps:
  "bypassRequestBody (serviceOf m key bypass) = bypass"
  "loggerContextKey (serviceOf m key bypass) = key"
  "mvalue (smethod (serviceOf m key bypass)) = m"
  "argType (smethod (serviceOf m key bypass)) = insOf (funcType m) ! 1"
  by (simp_all add: serviceOf_def)

lemma handlerOf_simps:
  "funcType (handlerOf ft es c) = ft"
  "behaviour (handlerOf ft es c) r a = \<lparr>effects = es, argAfter = a, completion = c\<rparr>"
  by (simp_all add: handlerOf_def)

text \<open>The sample requests after their form was parsed.\<close>

lemma ParseForm_postJson:
  "ParseForm (postJson q b) = (None, (postJson q b)\<lparr>reqForm := Some q\<rparr>)"
  by (simp add: ParseForm_def postJson_def)

lemma formPass_postJson:
  "formPass (postJson q b) arg = (formDecode arg q, (postJson q b)\<lparr>reqForm := Some q\<rparr>)"
  by (simp add: formPass_def ParseForm_postJson formOf_def)
     (simp add: postJson_def ToLower_json)

lemma formDecode_empty_struct:
  "formDecode (reflectNew emptyStruct) src = Inr (reflectNew emptyStruct)"
  by (simp add: formDecode_def reflectNew_def emptyStruct_def zeroStruct_def)

lemma parse_empty_object:
  "parseArgument False (postJson Map.empty (Some (Object []))) None (reflectNew emptyStruct) =
     (Inr (reflectNew emptyStruct),
      (postJson Map.empty (Some (Object [])))\<lparr>reqForm := Some Map.empty, reqBody := None\<rparr>)"
  apply (simp add: parseArgument_def formPass_postJson formDecode_empty_struct jsonPass_def
      jsonApplicable_postJson)
  apply (simp add: postJson_def jsonDecode_def reflectNew_def emptyStruct_def zeroStruct_def
      paramsPass_def)
  done

lemma callFits_pointer:
  "callFits (TFunc [contextType, TPtr t] outs False) [contextType, typeOfArgument (reflectNew t)]"
  by (simp add: callFits_def typeOfArgument_def reflectNew_def assignableTo_def)

section \<open>Three evaluations at single inputs\<close>

text \<open>
  C3 (a handler call that panics is intercepted and answered with status 500 and the
  envelope "service method panicked").  The code misses one case.  A handler of an accepted
  type that calls \<^verbatim>\<open>panic(nil)\<close> is not detected by the test \<^verbatim>\<open>panicInfo != nil\<close> in
  \<^verbatim>\<open>doServiceMethodCall\<close>, which returns no values and no \<^verbatim>\<open>panicStack\<close>;
  \<^verbatim>\<open>ServeHTTPWithParams\<close> then reaches its last branch and panics itself with
  "return values error: []".  Nothing is written to the response, and this panic leaves
  \<^verbatim>\<open>ServeHTTPWithParams\<close>.
\<close>

theorem nil_panic_escapes:
  "escaped (ServeHTTPWithParams env
      (serviceOf (handlerOf (twoValueType (TPtr emptyStruct)) [] (Panics None)) None False)
      newRecorder (postJson Map.empty (Some (Object []))) None) = Some ''return values error: []'' \<and>
   calls (response (ServeHTTPWithParams env
      (serviceOf (handlerOf (twoValueType (TPtr emptyStruct)) [] (Panics None)) None False)
      newRecorder (postJson Map.empty (Some (Object []))) None)) = []"
  by (simp add: ServeHTTPWithParams_def serviceOf_def handlerOf_def twoValueType_def
      parse_empty_object doServiceMethodCall_def reflectCall_def callFits_pointer classify_def
      newRecorder_def)

text \<open>
  C4 (a two-value handler that returns \<^verbatim>\<open>(nil, nil)\<close> without calling the status setter
  gets status 200 and an empty body).  The code writes a body.  \<^verbatim>\<open>out[0].Interface()\<close> of
  a \<^verbatim>\<open>nil\<close> struct pointer is an interface value holding a typed \<^verbatim>\<open>nil\<close>, so the test
  \<^verbatim>\<open>methodReturn != nil\<close> succeeds and \<^verbatim>\<open>writeResponse\<close> encodes the pointer: the body is
  the five bytes \<^verbatim>\<open>null\<close> and a newline.  The request is the one of the repository's
  test "normal request and function return nil without error".
\<close>

theorem nil_result_is_written_as_null:
  "calls (response (ServeHTTPWithParams env
      (serviceOf (handlerOf (twoValueType (TPtr emptyStruct)) []
                   (Returns [PtrValue None, ErrorValue None])) None False)
      newRecorder (postJson Map.empty (Some (Object []))) None))
   = [Write (''null'' @ [newline])]"
  by (simp add: ServeHTTPWithParams_def serviceOf_def handlerOf_def twoValueType_def
      parse_empty_object doServiceMethodCall_def reflectCall_def callFits_pointer classify_def
      errorSlot_def respond_def writeResponse_def jsonEncode_def jsonMarshalInterface_def
      rwWrite_def setResponseHeader_def headerSet_def logFields_def newRecorder_def)

text \<open>
  C6 (registration succeeds exactly for the signatures the specification lists).  The
  code accepts more.  \<^verbatim>\<open>isStringMap\<close> asks that the map's element type is an interface
  without a name, not that it is without methods, so a handler whose second parameter is
  \<^verbatim>\<open>map[string]interface{ M() }\<close> is registered, although the rule, and the code's own
  error message, name \<^verbatim>\<open>map[string]interface{}\<close>.
\<close>

theorem accepts_map_of_nonempty_interface:
  "checkServiceMethodPrototype (Some (oneValueType (TMap TString (TInterface [] [''M''])))) = None \<and>
   NewServiceHandler (Some (handlerOf (oneValueType (TMap TString (TInterface [] [''M'']))) es c))
       key bypass
     = Inr (serviceOf (handlerOf (oneValueType (TMap TString (TInterface [] [''M'']))) es c)
              key bypass) \<and>
   \<not> specValidSignature (Some (oneValueType (TMap TString (TInterface [] [''M'']))))"
  by (simp add: validator_defs oneValueType_def contextType_def errorType_def
      specValidSignature_def specSecondParameter_def specEmptyInterface_def
      NewServiceHandler_def serviceOf_def handlerOf_def)

section \<open>Written responses and bind failures\<close>

lemma rwWriteHeader_valid:
  "validStatus code \<Longrightarrow>
   rwWriteHeader code w =
     (None, w\<lparr>calls := calls w @ [WriteHeader code],
              sent := (case sent w of None \<Rightarrow> Some (code, header w) | Some s \<Rightarrow> Some s)\<rparr>)"
  by (simp add: rwWriteHeader_def split: option.splits)

lemma rwWriteHeader_sent:
  "sent w = None \<Longrightarrow> \<not> validStatus code \<Longrightarrow>
   rwWriteHeader code w = (Some (''invalid WriteHeader code '' @ itoa code), w)"
  by (simp add: rwWriteHeader_def)

lemma calls_jsonEncode_envelope:
  "calls (jsonEncode env (EnvelopeInterface resp) w) =
     calls w @ [Write (marshalEnvelope env resp @ [newline])]"
  by (simp add: jsonEncode_def jsonMarshalInterface_def rwWrite_def)

lemma writeErrorResponse_valid:
  assumes "validStatus (Code resp)"
  shows "fst (writeErrorResponse env w resp) = None"
    and "calls (snd (writeErrorResponse env w resp)) =
           calls w @ [WriteHeader (Code resp), Write (marshalEnvelope env resp @ [newline])]"
  using assms
  by (simp_all add: writeErrorResponse_def rwWriteHeader_valid calls_jsonEncode_envelope
      setResponseHeader_def headerSet_def)

lemma valid_400: "validStatus 400" and valid_500: "validStatus 500"
  by (simp_all add: validStatus_def)

lemma serve_bind_failure:
  assumes "elemOf (argType (smethod h)) = Some et"
    and "parseArgument (bypassRequestBody h) r ps (reflectNew et) = (Inl e, r')"
  shows "ServeHTTPWithParams env h rw r ps =
      \<lparr>response = snd (writeErrorResponse env rw
          \<lparr>Code = 400, Msg = ''parse argument failed'', Data = DataString e\<rparr>),
       invoked = False, recorded = [], escaped = None, requestAfter = r'\<rparr>"
proof -
  have "fst (writeErrorResponse env rw
          \<lparr>Code = 400, Msg = ''parse argument failed'', Data = DataString e\<rparr>) = None"
    by (rule writeErrorResponse_valid) (simp add: valid_400)
  with assms show ?thesis
    by (auto simp: ServeHTTPWithParams_def split: prod.splits)
qed

lemma ParseForm_keeps:
  "reqBody (snd (ParseForm r)) = reqBody r"
  "reqMethod (snd (ParseForm r)) = reqMethod r"
  "reqContentType (snd (ParseForm r)) = reqContentType r"
  "contextValue (snd (ParseForm r)) = contextValue r"
  "reqMultipartParsed (snd (ParseForm r)) = reqMultipartParsed r"
  "readMultipart (snd (ParseForm r)) = readMultipart r"
  by (simp_all add: ParseForm_def split: option.splits)

lemma ParseMultipartForm_keeps:
  "reqBody (snd (ParseMultipartForm r)) = reqBody r"
  "reqMethod (snd (ParseMultipartForm r)) = reqMethod r"
  "reqContentType (snd (ParseMultipartForm r)) = reqContentType r"
  "contextValue (snd (ParseMultipartForm r)) = contextValue r"
proof -
  obtain e r1 where p: "(if reqForm r = None then ParseForm r else (None, r)) = (e, r1)"
    by (cases "if reqForm r = None then ParseForm r else (None, r)")
  then have k: "reqBody r1 = reqBody r" "reqMethod r1 = reqMethod r"
    "reqContentType r1 = reqContentType r" "contextValue r1 = contextValue r"
    using ParseForm_keeps [of r] by (auto split: if_splits)
  show "reqBody (snd (ParseMultipartForm r)) = reqBody r"
    "reqMethod (snd (ParseMultipartForm r)) = reqMethod r"
    "reqContentType (snd (ParseMultipartForm r)) = reqContentType r"
    "contextValue (snd (ParseMultipartForm r)) = contextValue r"
    using k by (simp_all add: ParseMultipartForm_def p split: option.splits sum.splits)
qed

lemma formPass_keeps:
  "reqBody (snd (formPass r a)) = reqBody r"
  "reqMethod (snd (formPass r a)) = reqMethod r"
  "reqContentType (snd (formPass r a)) = reqContentType r"
  "contextValue (snd (formPass r a)) = contextValue r"
  using ParseForm_keeps [of r] ParseMultipartForm_keeps [of r]
  by (auto simp: formPass_def split: prod.splits option.splits)

lemma jsonApplicable_formPass:
  "jsonApplicable bypass (snd (formPass r a)) = jsonApplicable bypass r"
  by (simp add: jsonApplicable_def formPass_keeps)

lemma convertField_kind: "convertField n old s = Inr v \<Longrightarrow> kindOfVal v = kindOfVal old"
  by (cases old) (auto simp: convertField_def split: option.splits)

lemma decodeFields_shape: "decodeFields fs src = Inr fs' \<Longrightarrow> shape fs' = shape fs"
proof (induction fs arbitrary: fs')
  case Nil
  then show ?case by simp
next
  case (Cons a fs)
  obtain n old where a: "a = (n, old)" by (cases a)
  from Cons.prems a Cons.IH show ?case
    by (auto simp: shape_def split: sum.splits option.splits dest: convertField_kind)
qed




lemma formDecode_shape:
  "formDecode a src = Inr a' \<Longrightarrow>
   pointee a' = pointee a \<and> (\<exists>fs fs'. content a = StructVal fs \<and> content a' = StructVal fs' \<and> shape fs' = shape fs)"
  by (auto simp: formDecode_def split: goval.splits sum.splits dest: decodeFields_shape)


lemma formPass_shape:
  assumes "fst (formPass r a) = Inr a'"
  shows "pointee a' = pointee a \<and> (\<exists>fs fs'. content a = StructVal fs \<and> content a' = StructVal fs' \<and> shape fs' = shape fs)"
  using assms formDecode_shape
  by (auto simp: formPass_def split: prod.splits option.splits)




section \<open>The handler's run and application errors\<close>

lemma applyEffect_keeps:
  "handlerRan (snd (applyEffect st e)) = handlerRan st"
  "argNow (snd (applyEffect st e)) = argNow st"
  by (cases e; simp split: prod.splits)+

lemma runEffects_keeps:
  "handlerRan (snd (runEffects st es)) = handlerRan st \<and>
   argNow (snd (runEffects st es)) = argNow st"
proof (induction es arbitrary: st)
  case Nil
  then show ?case by simp
next
  case (Cons e es)
  obtain p st' where a: "applyEffect st e = (p, st')" by (cases "applyEffect st e")
  with applyEffect_keeps [of st e] have k: "handlerRan st' = handlerRan st" "argNow st' = argNow st"
    by simp_all
  show ?case
  proof (cases p)
    case None
    with a Cons.IH [of st'] k show ?thesis by simp
  next
    case (Some q)
    with a k show ?thesis by simp
  qed
qed

lemma applyEffect_valid:
  assumes "list_all validStatus (statusCalls [e])"
  shows "fst (applyEffect st e) = None"
    and "respStatus (snd (applyEffect st e)) =
           (if statusCalls [e] = [] then respStatus st else last (statusCalls [e]))"
    and "calls (writer (snd (applyEffect st e))) = calls (writer st) @ effectCalls [e]"
  using assms
  by (cases e; simp add: rwWriteHeader_valid effectCalls_def rwWrite_def)+

lemma statusCalls_Cons: "statusCalls (e # es) = statusCalls [e] @ statusCalls es"
  by (cases e) simp_all

lemma effectCalls_Cons: "effectCalls (e # es) = effectCalls [e] @ effectCalls es"
  by (simp add: effectCalls_def)

lemma runEffects_valid:
  assumes "list_all validStatus (statusCalls es)"
  shows "fst (runEffects st es) = None \<and>
         respStatus (snd (runEffects st es)) =
           (if statusCalls es = [] then respStatus st else last (statusCalls es)) \<and>
         calls (writer (snd (runEffects st es))) = calls (writer st) @ effectCalls es"
  using assms
proof (induction es arbitrary: st)
  case Nil
  then show ?case by (simp add: effectCalls_def)
next
  case (Cons e es)
  from Cons.prems have v: "list_all validStatus (statusCalls [e])"
    and vs: "list_all validStatus (statusCalls es)"
    by (simp_all add: statusCalls_Cons [of e es])
  obtain st' where a: "applyEffect st e = (None, st')"
    using applyEffect_valid(1) [OF v, of st] by (cases "applyEffect st e") simp
  from applyEffect_valid(2,3) [OF v, of st] a have
    s: "respStatus st' = (if statusCalls [e] = [] then respStatus st else last (statusCalls [e]))"
    and c: "calls (writer st') = calls (writer st) @ effectCalls [e]"
    by simp_all
  from Cons.IH [OF vs, of st'] a s c show ?case
    by (simp add: statusCalls_Cons [of e es] effectCalls_Cons [of e es])
qed

text \<open>The state after the call and how the call ended, for a run of the handler.\<close>

lemma reflectCall_fits:
  assumes "callFits (funcType m) [contextType, typeOfArgument arg]"
  shows "reflectCall m r' \<lparr>respStatus = 200, writer = rw, argNow = arg, handlerRan = False\<rparr>
       = ((case fst (runEffects \<lparr>respStatus = 200, writer = rw, argNow = arg, handlerRan = True\<rparr>
                       (effects (behaviour m r' (content arg)))) of
             Some info \<Rightarrow> Panics (Some info)
           | None \<Rightarrow> completion (behaviour m r' (content arg))),
          (snd (runEffects \<lparr>respStatus = 200, writer = rw, argNow = arg, handlerRan = True\<rparr>
             (effects (behaviour m r' (content arg)))))
            \<lparr>argNow := arg\<lparr>content := argAfter (behaviour m r' (content arg))\<rparr>\<rparr>)"
  using assms runEffects_keeps [of "\<lparr>respStatus = 200, writer = rw, argNow = arg, handlerRan = True\<rparr>"
      "effects (behaviour m r' (content arg))"]
  by (auto simp: reflectCall_def Let_def split: prod.splits)

lemma call_of_run:
  assumes "handlerRun h r ps = Some run"
  obtains et arg r' where
    "elemOf (argType (smethod h)) = Some et"
    "parseArgument (bypassRequestBody h) r ps (reflectNew et) = (Inr arg, r')"
    "reflectCall (mvalue (smethod h)) r' \<lparr>respStatus = 200, writer = rw, argNow = arg, handlerRan = False\<rparr>
       = ((case fst (runEffects \<lparr>respStatus = 200, writer = rw, argNow = arg, handlerRan = True\<rparr>
                       (effects run)) of
             Some info \<Rightarrow> Panics (Some info)
           | None \<Rightarrow> completion run),
          (snd (runEffects \<lparr>respStatus = 200, writer = rw, argNow = arg, handlerRan = True\<rparr>
             (effects run)))
            \<lparr>argNow := arg\<lparr>content := argAfter run\<rparr>\<rparr>)"
proof -
  from assms obtain et where e: "elemOf (argType (smethod h)) = Some et"
    by (cases "elemOf (argType (smethod h))") (simp_all add: handlerRun_def)
  obtain res r' where p: "parseArgument (bypassRequestBody h) r ps (reflectNew et) = (res, r')"
    by (cases "parseArgument (bypassRequestBody h) r ps (reflectNew et)")
  from assms e p obtain arg where a: "res = Inr arg"
    by (cases res) (simp_all add: handlerRun_def)
  from assms e p a have f: "callFits (funcType (mvalue (smethod h))) [contextType, typeOfArgument arg]"
    and b: "behaviour (mvalue (smethod h)) r' (content arg) = run"
    by (simp_all add: handlerRun_def split: if_splits)
  from p a have p': "parseArgument (bypassRequestBody h) r ps (reflectNew et) = (Inr arg, r')"
    by simp
  from reflectCall_fits [OF f, of r' rw] show ?thesis
    unfolding b by (rule that [OF e p'])
qed

lemma serve_parsed:
  assumes "elemOf (argType (smethod h)) = Some et"
    and "parseArgument (bypassRequestBody h) r ps (reflectNew et) = (Inr arg, r')"
    and "doServiceMethodCall env (smethod h) r'
           \<lparr>respStatus = 200, writer = rw, argNow = arg, handlerRan = False\<rparr> = ((out, mp), st)"
    and "classify env (writer st) out mp = Inr v"
    and "respond env (respStatus st) v = Inr v'"
  shows "ServeHTTPWithParams env h rw r ps =
      \<lparr>response = vWriter v', invoked = handlerRan st,
       recorded = fst (logFields env h r' (argNow st) (respData v')),
       escaped = snd (logFields env h r' (argNow st) (respData v')),
       requestAfter = r'\<rparr>"
  using assms by (simp add: ServeHTTPWithParams_def Let_def)

lemma serve_respond_escapes:
  assumes "elemOf (argType (smethod h)) = Some et"
    and "parseArgument (bypassRequestBody h) r ps (reflectNew et) = (Inr arg, r')"
    and "doServiceMethodCall env (smethod h) r'
           \<lparr>respStatus = 200, writer = rw, argNow = arg, handlerRan = False\<rparr> = ((out, mp), st)"
    and "classify env (writer st) out mp = Inr v"
    and "respond env (respStatus st) v = Inl (p, w)"
  shows "ServeHTTPWithParams env h rw r ps =
      \<lparr>response = w, invoked = handlerRan st, recorded = [], escaped = Some p,
       requestAfter = r'\<rparr>"
  using assms by (simp add: ServeHTTPWithParams_def)

lemma respond_error:
  assumes "methodError v = Some m"
    and "validStatus (if status = 200 then 500 else status)"
  shows "\<exists>v'. respond env status v = Inr v' \<and>
           vWriter v' = snd (writeErrorResponse env (vWriter v)
             \<lparr>Code = (if status = 200 then 500 else status), Msg = ''service method error'',
              Data = DataString m\<rparr>) \<and>
           respData v' = EnvelopeInterface
             \<lparr>Code = (if status = 200 then 500 else status), Msg = ''service method error'',
              Data = DataString m\<rparr>"
proof -
  let ?resp = "\<lparr>Code = (if status = 200 then 500 else status), Msg = ''service method error'',
              Data = DataString m\<rparr>"
  have "fst (writeErrorResponse env (vWriter v) ?resp) = None"
    by (rule writeErrorResponse_valid) (use assms(2) in simp)
  with assms(1) show ?thesis
    by (cases "writeErrorResponse env (vWriter v) ?resp") (simp add: respond_def Let_def)
qed

lemma classify_returns_error:
  assumes "out = [ErrorValue (Some msg)] \<or> out = [PtrValue p, ErrorValue (Some msg)]"
  shows "\<exists>v. classify env w out None = Inr v \<and> methodError v = Some msg \<and> vWriter v = w"
  using assms by (auto simp: classify_def errorSlot_def)

lemma valid_envelopeCode:
  "list_all validStatus statuses \<Longrightarrow> validStatus (envelopeCode statuses)"
  by (cases "statuses = []") (auto simp: envelopeCode_def valid_500 list_all_iff)

lemma error_envelope:
  assumes "handlerRun h r ps = Some run"
    and "list_all validStatus (statusCalls (effects run))"
    and "completion run = Returns [ErrorValue (Some msg)] \<or>
         completion run = Returns [PtrValue p, ErrorValue (Some msg)]"
  shows "calls (response (ServeHTTPWithParams env h rw r ps)) =
           calls rw @ effectCalls (effects run) @
           [WriteHeader (envelopeCode (statusCalls (effects run))),
            Write (marshalEnvelope env
              \<lparr>Code = envelopeCode (statusCalls (effects run)), Msg = ''service method error'',
               Data = DataString msg\<rparr> @ [newline])]"
proof -
  from call_of_run [OF assms(1), of rw] obtain et arg r' where
    e: "elemOf (argType (smethod h)) = Some et" and
    p: "parseArgument (bypassRequestBody h) r ps (reflectNew et) = (Inr arg, r')" and
    c: "reflectCall (mvalue (smethod h)) r' \<lparr>respStatus = 200, writer = rw, argNow = arg, handlerRan = False\<rparr>
       = ((case fst (runEffects \<lparr>respStatus = 200, writer = rw, argNow = arg, handlerRan = True\<rparr>
                       (effects run)) of
             Some info \<Rightarrow> Panics (Some info)
           | None \<Rightarrow> completion run),
          (snd (runEffects \<lparr>respStatus = 200, writer = rw, argNow = arg, handlerRan = True\<rparr>
             (effects run)))
            \<lparr>argNow := arg\<lparr>content := argAfter run\<rparr>\<rparr>)"
    by blast
  let ?run = "runEffects \<lparr>respStatus = 200, writer = rw, argNow = arg, handlerRan = True\<rparr> (effects run)"
  let ?st = "(snd ?run)\<lparr>argNow := arg\<lparr>content := argAfter run\<rparr>\<rparr>"
  note re = runEffects_valid [OF assms(2),
      of "\<lparr>respStatus = 200, writer = rw, argNow = arg, handlerRan = True\<rparr>"]
  obtain out where o: "completion run = Returns out"
    and o': "out = [ErrorValue (Some msg)] \<or> out = [PtrValue p, ErrorValue (Some msg)]"
    using assms(3) by blast
  have d: "doServiceMethodCall env (smethod h) r'
       \<lparr>respStatus = 200, writer = rw, argNow = arg, handlerRan = False\<rparr> = ((out, None), ?st)"
    using re by (simp add: doServiceMethodCall_def c o)
  from classify_returns_error [OF o', of env "writer ?st"] obtain v where
    v: "classify env (writer ?st) out None = Inr v" "methodError v = Some msg" "vWriter v = writer ?st"
    by blast
  have s: "(if respStatus ?st = 200 then 500 else respStatus ?st) = envelopeCode (statusCalls (effects run))"
    using re by (simp add: envelopeCode_def)
  have w: "calls (writer ?st) = calls rw @ effectCalls (effects run)"
    using re by simp
  note vc = valid_envelopeCode [OF assms(2)]
  from respond_error [OF v(2), of "respStatus ?st" env] vc s obtain v' where
    v': "respond env (respStatus ?st) v = Inr v'"
      "vWriter v' = snd (writeErrorResponse env (vWriter v)
             \<lparr>Code = envelopeCode (statusCalls (effects run)), Msg = ''service method error'',
              Data = DataString msg\<rparr>)"
    by auto
  from serve_parsed [OF e p d v(1) v'(1)] v'(2) v(3) w vc show ?thesis
    by (simp add: writeErrorResponse_valid)
qed

lemma content_new_empty: "content (reflectNew emptyStruct) = StructVal []"
  by (simp add: reflectNew_def emptyStruct_def zeroStruct_def)

lemma parse_emptyPost:
  "parseArgument False emptyPost None (reflectNew emptyStruct) =
     (Inr (reflectNew emptyStruct), emptyPost\<lparr>reqForm := Some Map.empty, reqBody := None\<rparr>)"
  by (simp add: emptyPost_def parse_empty_object)

lemma run_on_emptyPost:
  "handlerRun (serviceOf (handlerOf (twoValueType (TPtr emptyStruct)) es c) key False) emptyPost None =
     Some \<lparr>effects = es, argAfter = content (reflectNew emptyStruct), completion = c\<rparr>"
  by (simp add: handlerRun_def serviceOf_simps handlerOf_simps twoValueType_def
      parse_emptyPost callFits_pointer)

text \<open>
  C5 (a handler that calls the status setter with a status and then returns an error gets
  that status as the envelope's code, whatever the status), as the code has it: for every
  status from 100 to 999 other than 200.  The code takes a \<^verbatim>\<open>respStatus\<close> of 200 to
  mean that no status was set and replaces it by 500, and the writer's \<^verbatim>\<open>WriteHeader\<close>
  panics on a status outside 100 to 999.  With several calls of the setter, all with
  statuses the writer accepts, the last one counts.  The writer receives the handler's
  own calls, then \<^verbatim>\<open>WriteHeader\<close> with the status and the envelope with that code, the
  message "service method error" and the error's text.
\<close>

theorem explicit_status_reaches_envelope:
  assumes "handlerRun h r ps = Some run"
    and "statusCalls (effects run) \<noteq> []"
    and "last (statusCalls (effects run)) = S"
    and "list_all validStatus (statusCalls (effects run))"
    and "S \<noteq> 200"
    and "completion run = Returns [ErrorValue (Some msg)] \<or>
         completion run = Returns [PtrValue p, ErrorValue (Some msg)]"
  shows "calls (response (ServeHTTPWithParams env h rw r ps)) =
           calls rw @ effectCalls (effects run) @
           [WriteHeader S,
            Write (marshalEnvelope env
              \<lparr>Code = S, Msg = ''service method error'', Data = DataString msg\<rparr> @ [newline])]"
  using error_envelope [OF assms(1,4,6), of env rw] assms(2,3,5) by (simp add: envelopeCode_def)


theorem explicit_status_reaches_envelope_witness:
  "handlerRun (statusService 404) emptyPost None =
     Some \<lparr>effects = [SetStatus 404], argAfter = StructVal [],
           completion = Returns [PtrValue None, ErrorValue (Some ''expected error'')]\<rparr> \<and>
   statusCalls [SetStatus 404] \<noteq> [] \<and> last (statusCalls [SetStatus 404]) = 404 \<and>
   list_all validStatus (statusCalls [SetStatus 404]) \<and> (404 :: int) \<noteq> 200 \<and>
   calls (response (ServeHTTPWithParams sampleEnv (statusService 404) newRecorder emptyPost None)) =
     [WriteHeader 404, WriteHeader 404,
      Write (marshalEnvelope sampleEnv
        \<lparr>Code = 404, Msg = ''service method error'', Data = DataString ''expected error''\<rparr> @ [newline])]"
proof -
  let ?run = "\<lparr>effects = [SetStatus 404], argAfter = StructVal [],
           completion = Returns [PtrValue None, ErrorValue (Some ''expected error'')]\<rparr>"
  have r: "handlerRun (statusService 404) emptyPost None = Some ?run"
    by (simp add: statusService_def run_on_emptyPost content_new_empty)
  have n: "statusCalls (effects ?run) \<noteq> []" by simp
  have l: "last (statusCalls (effects ?run)) = 404" by simp
  have v: "list_all validStatus (statusCalls (effects ?run))" by (simp add: validStatus_def)
  have d: "(404 :: int) \<noteq> 200" by simp
  have c: "completion ?run = Returns [ErrorValue (Some ''expected error'')] \<or>
         completion ?run = Returns [PtrValue None, ErrorValue (Some ''expected error'')]" by simp
  from explicit_status_reaches_envelope [OF r n l v d c, of sampleEnv newRecorder] r
  show ?thesis by (simp add: effectCalls_def newRecorder_def validStatus_def)
qed

lemma itoa_small: "itoa 0 = ''0''" "itoa 200 = ''200''" "itoa 500 = ''500''"
  by code_simp+

lemma envelope_codes_differ:
  "marshalEnvelope sampleEnv \<lparr>Code = 500, Msg = m, Data = d\<rparr> \<noteq>
   marshalEnvelope sampleEnv \<lparr>Code = 200, Msg = m, Data = d\<rparr>"
  by (simp add: marshalEnvelope_def jsonKey_def itoa_small)

lemma recovering_zero_escapes:
  "ServeHTTPWithParams sampleEnv (recoveringService 0) newRecorder emptyPost None =
     \<lparr>response = setResponseHeader newRecorder, invoked = True, recorded = [],
      escaped = Some ''invalid WriteHeader code 0'',
      requestAfter = emptyPost\<lparr>reqForm := Some Map.empty, reqBody := None\<rparr>\<rparr>"
proof -
  let ?h = "recoveringService 0"
  let ?r' = "emptyPost\<lparr>reqForm := Some Map.empty, reqBody := None\<rparr>"
  let ?st = "\<lparr>respStatus = 0, writer = newRecorder, argNow = reflectNew emptyStruct,
              handlerRan = True\<rparr>"
  have e: "elemOf (argType (smethod ?h)) = Some emptyStruct"
    and b: "bypassRequestBody ?h = False"
    by (simp_all add: recoveringService_def serviceOf_simps handlerOf_simps twoValueType_def)
  have p: "parseArgument (bypassRequestBody ?h) emptyPost None (reflectNew emptyStruct) =
     (Inr (reflectNew emptyStruct), ?r')"
    by (simp add: b parse_emptyPost)
  have w0: "rwWriteHeader 0 newRecorder = (Some ''invalid WriteHeader code 0'', newRecorder)"
    by (simp add: rwWriteHeader_def newRecorder_def validStatus_def itoa_small)
  have d: "doServiceMethodCall sampleEnv (smethod ?h) ?r'
        \<lparr>respStatus = 200, writer = newRecorder, argNow = reflectNew emptyStruct, handlerRan = False\<rparr>
      = (([PtrValue None, ErrorValue (Some ''expected error'')], None), ?st)"
    by (simp add: doServiceMethodCall_def reflectCall_def recoveringService_def serviceOf_simps
        handlerOf_simps twoValueType_def callFits_pointer w0)
  have c: "classify sampleEnv (writer ?st) [PtrValue None, ErrorValue (Some ''expected error'')] None =
      Inr \<lparr>vWriter = newRecorder, methodError = Some ''expected error'',
           methodReturn = PtrInterface None, respData = NilInterface\<rparr>"
    by (simp add: classify_def errorSlot_def)
  have w1: "rwWriteHeader 0 (setResponseHeader newRecorder) =
      (Some ''invalid WriteHeader code 0'', setResponseHeader newRecorder)"
    by (simp add: rwWriteHeader_def newRecorder_def validStatus_def itoa_small
        setResponseHeader_def headerSet_def)
  have x: "respond sampleEnv (respStatus ?st)
      \<lparr>vWriter = newRecorder, methodError = Some ''expected error'',
       methodReturn = PtrInterface None, respData = NilInterface\<rparr> =
      Inl (''invalid WriteHeader code 0'', setResponseHeader newRecorder)"
    by (simp add: respond_def writeErrorResponse_def w1)
  from serve_respond_escapes [OF e p d c x] show ?thesis by simp
qed

text \<open>C5 as stated fails for the status 200 and for a status that the writer does not
  accept.  A handler that sets 200 and returns an error gets an envelope with code 500.
  A handler that calls the setter with 0, recovers the setter's panic and returns an
  error gets no envelope: the core's own \<^verbatim>\<open>WriteHeader(0)\<close> panics and the panic leaves
  \<^verbatim>\<open>ServeHTTPWithParams\<close> with nothing written.\<close>

theorem status_200_is_replaced:
  "calls (response (ServeHTTPWithParams sampleEnv (statusService 200) newRecorder emptyPost None)) =
     [WriteHeader 200, WriteHeader 500,
      Write (marshalEnvelope sampleEnv
        \<lparr>Code = 500, Msg = ''service method error'', Data = DataString ''expected error''\<rparr> @ [newline])] \<and>
   marshalEnvelope sampleEnv
        \<lparr>Code = 500, Msg = ''service method error'', Data = DataString ''expected error''\<rparr> \<noteq>
   marshalEnvelope sampleEnv
        \<lparr>Code = 200, Msg = ''service method error'', Data = DataString ''expected error''\<rparr> \<and>
   escaped (ServeHTTPWithParams sampleEnv (recoveringService 0) newRecorder emptyPost None) =
     Some ''invalid WriteHeader code 0'' \<and>
   calls (response (ServeHTTPWithParams sampleEnv (recoveringService 0) newRecorder emptyPost None)) = []"
proof -
  let ?run = "\<lparr>effects = [SetStatus 200], argAfter = StructVal [],
           completion = Returns [PtrValue None, ErrorValue (Some ''expected error'')]\<rparr>"
  have r: "handlerRun (statusService 200) emptyPost None = Some ?run"
    by (simp add: statusService_def run_on_emptyPost content_new_empty)
  have v: "list_all validStatus (statusCalls (effects ?run))" by (simp add: validStatus_def)
  have c: "completion ?run = Returns [ErrorValue (Some ''expected error'')] \<or>
         completion ?run = Returns [PtrValue None, ErrorValue (Some ''expected error'')]" by simp
  from error_envelope [OF r v c, of sampleEnv newRecorder] envelope_codes_differ
    recovering_zero_escapes
  show ?thesis
    by (simp add: effectCalls_def newRecorder_def envelopeCode_def setResponseHeader_def
        headerSet_def)
qed

section \<open>Response headers\<close>

lemma headers_setResponseHeader:
  "header (setResponseHeader w) ''X-Content-Type-Options'' = Some [''nosniff'']"
  "header (setResponseHeader w) ''Content-Type'' = Some [''application/json'']"
  "sent (setResponseHeader w) = sent w"
  "calls (setResponseHeader w) = calls w"
  by (simp_all add: setResponseHeader_def headerSet_def canonical_nosniff canonical_content_type)

lemma jsonEncode_sent:
  "sentHeaders (jsonEncode env v w) = sentHeaders w"
  by (simp add: jsonEncode_def rwWrite_def sentHeaders_def split: sum.splits option.splits)

lemma sentHeaders_unsent: "sent w = None \<Longrightarrow> sentHeaders w = header w"
  by (simp add: sentHeaders_def)

lemma sentHeaders_sent: "sent w = Some (code, hs) \<Longrightarrow> sentHeaders w = hs"
  by (simp add: sentHeaders_def)

lemma carries_writeResponse:
  assumes "sent w = None"
  shows "carriesBothHeaders (writeResponse env w d)"
proof -
  from assms have "sentHeaders (setResponseHeader w) = header (setResponseHeader w)"
    by (simp add: sentHeaders_unsent headers_setResponseHeader)
  then show ?thesis
    by (simp add: carriesBothHeaders_def writeResponse_def jsonEncode_sent
        headers_setResponseHeader)
qed

lemma carries_writeErrorResponse:
  assumes "sent w = None" and "writeErrorResponse env w resp = (None, w')"
  shows "carriesBothHeaders w'"
proof -
  from assms(1) have s: "sent (setResponseHeader w) = None" by (simp add: headers_setResponseHeader)
  from assms(2) s have v: "validStatus (Code resp)"
    by (auto simp: writeErrorResponse_def rwWriteHeader_def split: if_splits)
  from assms(2) v s have "w' = jsonEncode env (EnvelopeInterface resp)
      ((setResponseHeader w)\<lparr>calls := calls (setResponseHeader w) @ [WriteHeader (Code resp)],
          sent := Some (Code resp, header (setResponseHeader w))\<rparr>)"
    by (simp add: writeErrorResponse_def rwWriteHeader_valid)
  moreover have "sentHeaders
      ((setResponseHeader w)\<lparr>calls := calls (setResponseHeader w) @ [WriteHeader (Code resp)],
          sent := Some (Code resp, header (setResponseHeader w))\<rparr>) = header (setResponseHeader w)"
    by (rule sentHeaders_sent) simp
  ultimately show ?thesis
    by (simp add: carriesBothHeaders_def jsonEncode_sent headers_setResponseHeader)
qed

lemma classify_fault:
  "classify env w out (Some p) =
     Inr \<lparr>vWriter = snd (writeErrorResponse env w
             \<lparr>Code = 500, Msg = ''service method panicked'', Data = DataPanic p\<rparr>),
          methodError = None, methodReturn = NilInterface,
          respData = EnvelopeInterface
             \<lparr>Code = 500, Msg = ''service method panicked'', Data = DataPanic p\<rparr>\<rparr>"
proof -
  let ?resp = "\<lparr>Code = 500, Msg = ''service method panicked'', Data = DataPanic p\<rparr>"
  have "fst (writeErrorResponse env w ?resp) = None"
    by (rule writeErrorResponse_valid) (simp add: valid_500)
  then show ?thesis
    by (cases "writeErrorResponse env w ?resp") (simp add: classify_def Let_def)
qed

lemma classify_writer: "classify env w out None = Inr v \<Longrightarrow> vWriter v = w"
  by (auto simp: classify_def split: list.splits sum.splits)

lemma respond_nothing:
  "methodError v = None \<Longrightarrow> methodReturn v = NilInterface \<Longrightarrow> respond env status v = Inr v"
  by (simp add: respond_def)

lemma respond_carries:
  assumes "respond env status v = Inr v'"
    and "methodError v \<noteq> None \<or> methodReturn v \<noteq> NilInterface"
    and "sent (vWriter v) = None"
  shows "carriesBothHeaders (vWriter v')"
proof (cases "methodError v")
  case (Some m)
  let ?resp = "\<lparr>Code = (if status = 200 then 500 else status),
                       Msg = ''service method error'', Data = DataString m\<rparr>"
  obtain q w' where w: "writeErrorResponse env (vWriter v) ?resp = (q, w')"
    by (cases "writeErrorResponse env (vWriter v) ?resp")
  with assms(1) Some have "q = None" "vWriter v' = w'"
    by (cases q; auto simp: respond_def Let_def)+
  with carries_writeErrorResponse [OF assms(3), of env ?resp w'] w show ?thesis by simp
next
  case None
  with assms(1,2) have "vWriter v' = writeResponse env (vWriter v) (methodReturn v)"
    by (auto simp: respond_def)
  with carries_writeResponse [OF assms(3)] show ?thesis by simp
qed

text \<open>
  C7 (every response the core produces carries the headers
  \<^verbatim>\<open>X-Content-Type-Options: nosniff\<close> and \<^verbatim>\<open>Content-Type: application/json\<close>), as the
  code has it: the response carries the two headers whenever the core writes a response,
  that is after a bind failure, a recovered fault, an application error and a return
  value that the code finds not \<^verbatim>\<open>nil\<close>, and nothing was sent on the writer before the
  core turns to it.  When the handler returns no value and no error the core writes
  nothing and sets no header; and when the handler has called the status setter or
  written to the body, the headers that the core sets afterwards are no longer sent.
\<close>

theorem written_responses_carry_headers:
  assumes "endingOf env h rw r ps \<in> {BindFailure, Fault, ApplicationError, SuccessWithValue}"
    and "sent (writerAtResponse env h rw r ps) = None"
  shows "carriesBothHeaders (response (ServeHTTPWithParams env h rw r ps))"
proof (cases "elemOf (argType (smethod h))")
  case None
  with assms show ?thesis by (simp add: endingOf_def)
next
  case (Some et)
  obtain res r' where p: "parseArgument (bypassRequestBody h) r ps (reflectNew et) = (res, r')"
    by (cases "parseArgument (bypassRequestBody h) r ps (reflectNew et)")
  show ?thesis
  proof (cases res)
    case (Inl e)
    let ?resp = "\<lparr>Code = 400, Msg = ''parse argument failed'', Data = DataString e\<rparr>"
    from assms(2) Some p Inl have s: "sent rw = None" by (simp add: writerAtResponse_def)
    have "fst (writeErrorResponse env rw ?resp) = None"
      by (rule writeErrorResponse_valid) (simp add: valid_400)
    then have "writeErrorResponse env rw ?resp = (None, snd (writeErrorResponse env rw ?resp))"
      by (cases "writeErrorResponse env rw ?resp") simp
    from carries_writeErrorResponse [OF s this]
      serve_bind_failure [OF Some, of r ps e r' env rw] p Inl
    show ?thesis by simp
  next
    case (Inr arg)
    obtain out mp st where d: "doServiceMethodCall env (smethod h) r'
        \<lparr>respStatus = 200, writer = rw, argNow = arg, handlerRan = False\<rparr> = ((out, mp), st)"
      by (metis surj_pair)
    from assms(2) Some p Inr d have s: "sent (writer st) = None"
      by (simp add: writerAtResponse_def)
    note p' = p [unfolded Inr]
    show ?thesis
    proof (cases "classify env (writer st) out mp")
      case (Inl q)
      with assms(1) Some p Inr d show ?thesis by (simp add: endingOf_def)
    next
      case v: (Inr v)
      show ?thesis
      proof (cases "respond env (respStatus st) v")
        case (Inl q)
        with assms(1) Some p Inr d v show ?thesis by (simp add: endingOf_def)
      next
        case v': (Inr v')
        note sv = serve_parsed [OF Some p' d v v']
        show ?thesis
        proof (cases mp)
          case (Some ps')
          let ?resp = "\<lparr>Code = 500, Msg = ''service method panicked'', Data = DataPanic ps'\<rparr>"
          from v Some classify_fault [of env "writer st" out ps']
          have vf: "vWriter v = snd (writeErrorResponse env (writer st) ?resp)"
            "methodError v = None" "methodReturn v = NilInterface"
            by auto
          with v' have "v' = v" by (simp add: respond_nothing)
          moreover have "fst (writeErrorResponse env (writer st) ?resp) = None"
            by (rule writeErrorResponse_valid) (simp add: valid_500)
          then have "writeErrorResponse env (writer st) ?resp = (None, vWriter v)"
            using vf(1) by (cases "writeErrorResponse env (writer st) ?resp") simp
          note carries_writeErrorResponse [OF s this]
          ultimately show ?thesis by (simp add: sv)
        next
          case None
          with v have w: "vWriter v = writer st" by (simp add: classify_writer)
          from assms(1) \<open>elemOf (argType (smethod h)) = Some et\<close> p Inr d v v' None
          have "methodError v \<noteq> None \<or> methodReturn v \<noteq> NilInterface"
            by (auto simp: endingOf_def split: if_splits)
          from respond_carries [OF v' this] w s show ?thesis by (simp add: sv)
        qed
      qed
    qed
  qed
qed


lemma ending_parsed:
  assumes "elemOf (argType (smethod h)) = Some et"
    and "parseArgument (bypassRequestBody h) r ps (reflectNew et) = (Inr arg, r')"
    and "doServiceMethodCall env (smethod h) r'
           \<lparr>respStatus = 200, writer = rw, argNow = arg, handlerRan = False\<rparr> = ((out, mp), st)"
    and "classify env (writer st) out mp = Inr v"
    and "respond env (respStatus st) v = Inr v'"
  shows "endingOf env h rw r ps =
      (if mp \<noteq> None then Fault
       else if methodError v \<noteq> None then ApplicationError
       else if methodReturn v \<noteq> NilInterface then SuccessWithValue
       else SuccessNoValue)"
  using assms by (simp add: endingOf_def)

lemma parse_brokenBody:
  "parseArgument False (postJson Map.empty brokenBody) None (reflectNew emptyStruct) =
     (Inl ''invalid character '1' looking for beginning of object key string'',
      (postJson Map.empty brokenBody)\<lparr>reqForm := Some Map.empty, reqBody := None\<rparr>)"
  apply (simp add: parseArgument_def formPass_postJson formDecode_empty_struct jsonPass_def
      jsonApplicable_postJson)
  apply (simp add: postJson_def jsonDecode_def brokenBody_def)
  done

theorem written_responses_carry_headers_witness:
  "endingOf sampleEnv nilService newRecorder (postJson Map.empty brokenBody) None
     \<in> {BindFailure, Fault, ApplicationError, SuccessWithValue} \<and>
   sent (writerAtResponse sampleEnv nilService newRecorder (postJson Map.empty brokenBody) None) = None \<and>
   carriesBothHeaders (response (ServeHTTPWithParams sampleEnv nilService newRecorder
                     (postJson Map.empty brokenBody) None))"
proof -
  have e: "endingOf sampleEnv nilService newRecorder (postJson Map.empty brokenBody) None
     \<in> {BindFailure, Fault, ApplicationError, SuccessWithValue}"
    by (simp add: endingOf_def nilService_def serviceOf_simps handlerOf_simps twoValueType_def
        parse_brokenBody)
  have s: "sent (writerAtResponse sampleEnv nilService newRecorder
                  (postJson Map.empty brokenBody) None) = None"
    by (simp add: writerAtResponse_def nilService_def serviceOf_simps handlerOf_simps
        twoValueType_def parse_brokenBody newRecorder_def)
  from written_responses_carry_headers [OF e s] e s show ?thesis by simp
qed

lemma quiet_success:
  "endingOf sampleEnv quietService newRecorder emptyPost None = SuccessNoValue"
  "response (ServeHTTPWithParams sampleEnv quietService newRecorder emptyPost None) = newRecorder"
proof -
  let ?r' = "emptyPost\<lparr>reqForm := Some Map.empty, reqBody := None\<rparr>"
  let ?st = "\<lparr>respStatus = 200, writer = newRecorder, argNow = reflectNew emptyStruct,
              handlerRan = True\<rparr>"
  let ?v = "\<lparr>vWriter = newRecorder, methodError = None, methodReturn = NilInterface,
           respData = NilInterface\<rparr>"
  have e: "elemOf (argType (smethod quietService)) = Some emptyStruct"
    and b: "bypassRequestBody quietService = False"
    by (simp_all add: quietService_def serviceOf_simps handlerOf_simps oneValueType_def)
  have p: "parseArgument (bypassRequestBody quietService) emptyPost None (reflectNew emptyStruct) =
     (Inr (reflectNew emptyStruct), ?r')"
    by (simp add: b parse_emptyPost)
  have d: "doServiceMethodCall sampleEnv (smethod quietService) ?r'
        \<lparr>respStatus = 200, writer = newRecorder, argNow = reflectNew emptyStruct, handlerRan = False\<rparr>
      = (([ErrorValue None], None), ?st)"
    by (simp add: doServiceMethodCall_def reflectCall_def quietService_def serviceOf_simps
        handlerOf_simps oneValueType_def callFits_pointer)
  have c: "classify sampleEnv (writer ?st) [ErrorValue None] None = Inr ?v"
    by (simp add: classify_def errorSlot_def)
  have x: "respond sampleEnv (respStatus ?st) ?v = Inr ?v"
    by (simp add: respond_nothing)
  from ending_parsed [OF e p d c x]
  show "endingOf sampleEnv quietService newRecorder emptyPost None = SuccessNoValue"
    by simp
  from serve_parsed [OF e p d c x]
  show "response (ServeHTTPWithParams sampleEnv quietService newRecorder emptyPost None) = newRecorder"
    by simp
qed

lemma status_404_sent_early:
  "endingOf sampleEnv (statusService 404) newRecorder emptyPost None = ApplicationError"
  "sentHeaders (response (ServeHTTPWithParams sampleEnv (statusService 404) newRecorder emptyPost None))
     = Map.empty"
proof -
  let ?h = "statusService 404"
  let ?r' = "emptyPost\<lparr>reqForm := Some Map.empty, reqBody := None\<rparr>"
  let ?w = "\<lparr>header = Map.empty, calls = [WriteHeader 404], sent = Some (404, Map.empty)\<rparr>"
  let ?st = "\<lparr>respStatus = 404, writer = ?w, argNow = reflectNew emptyStruct, handlerRan = True\<rparr>"
  let ?out = "[PtrValue None, ErrorValue (Some ''expected error'')]"
  let ?v = "\<lparr>vWriter = ?w, methodError = Some ''expected error'',
           methodReturn = PtrInterface None, respData = NilInterface\<rparr>"
  let ?resp = "\<lparr>Code = 404, Msg = ''service method error'', Data = DataString ''expected error''\<rparr>"
  have e: "elemOf (argType (smethod ?h)) = Some emptyStruct"
    and b: "bypassRequestBody ?h = False"
    by (simp_all add: statusService_def serviceOf_simps handlerOf_simps twoValueType_def)
  have p: "parseArgument (bypassRequestBody ?h) emptyPost None (reflectNew emptyStruct) =
     (Inr (reflectNew emptyStruct), ?r')"
    by (simp add: b parse_emptyPost)
  have w0: "rwWriteHeader 404 newRecorder = (None, ?w)"
    by (simp add: rwWriteHeader_def newRecorder_def validStatus_def)
  have d: "doServiceMethodCall sampleEnv (smethod ?h) ?r'
        \<lparr>respStatus = 200, writer = newRecorder, argNow = reflectNew emptyStruct, handlerRan = False\<rparr>
      = ((?out, None), ?st)"
    by (simp add: doServiceMethodCall_def reflectCall_def statusService_def serviceOf_simps
        handlerOf_simps twoValueType_def callFits_pointer w0)
  have c: "classify sampleEnv (writer ?st) ?out None = Inr ?v"
    by (simp add: classify_def errorSlot_def)
  have we: "writeErrorResponse sampleEnv ?w ?resp =
      (None, jsonEncode sampleEnv (EnvelopeInterface ?resp)
         ((setResponseHeader ?w)\<lparr>calls := [WriteHeader 404, WriteHeader 404]\<rparr>))"
    by (simp add: writeErrorResponse_def rwWriteHeader_def setResponseHeader_def headerSet_def)
  have x: "respond sampleEnv (respStatus ?st) ?v =
      Inr (?v\<lparr>respData := EnvelopeInterface ?resp,
              vWriter := jsonEncode sampleEnv (EnvelopeInterface ?resp)
                ((setResponseHeader ?w)\<lparr>calls := [WriteHeader 404, WriteHeader 404]\<rparr>)\<rparr>)"
    by (simp add: respond_def we Let_def)
  from ending_parsed [OF e p d c x]
  show "endingOf sampleEnv ?h newRecorder emptyPost None = ApplicationError"
    by simp
  have "sentHeaders ((setResponseHeader ?w)\<lparr>calls := [WriteHeader 404, WriteHeader 404]\<rparr>) = Map.empty"
    by (rule sentHeaders_sent [of _ 404]) (simp add: headers_setResponseHeader)
  with serve_parsed [OF e p d c x]
  show "sentHeaders (response (ServeHTTPWithParams sampleEnv ?h newRecorder emptyPost None)) = Map.empty"
    by (simp add: jsonEncode_sent)
qed

text \<open>C7 as stated fails twice.  After a one-value handler that returns \<^verbatim>\<open>nil\<close> the
  core writes nothing and the header map of a fresh writer is still empty.  After a
  handler that sets the status 404 and returns an error the core writes the error
  envelope, but the status went out with the handler's call, before the core set the
  headers, and the response carries neither.\<close>

theorem headers_missing_twice:
  "endingOf sampleEnv quietService newRecorder emptyPost None = SuccessNoValue \<and>
   \<not> carriesBothHeaders (response (ServeHTTPWithParams sampleEnv quietService newRecorder emptyPost None)) \<and>
   endingOf sampleEnv (statusService 404) newRecorder emptyPost None = ApplicationError \<and>
   \<not> carriesBothHeaders
        (response (ServeHTTPWithParams sampleEnv (statusService 404) newRecorder emptyPost None))"
  using quiet_success status_404_sent_early
  by (simp add: carriesBothHeaders_def sentHeaders_unsent newRecorder_def)

section \<open>Slice and map parameters\<close>

lemma pointer_differs: "TPtr t \<noteq> t"
  by (induction t) auto

lemma jsonDecode_pointee: "fst (jsonDecode bd a) = Inr a' \<Longrightarrow> pointee a' = pointee a"
  by (auto simp: jsonDecode_def split: option.splits json_text.splits goval.splits sum.splits
      if_splits)

lemma parse_success:
  assumes "parseArgument bypass r ps a = (Inr a', r')"
  shows "pointee a' = pointee a \<and> (\<exists>fs. content a = StructVal fs)"
proof -
  obtain res1 r1 where f: "formPass r a = (res1, r1)" by (cases "formPass r a")
  from assms f obtain a1 where a1: "res1 = Inr a1"
    by (cases res1) (auto simp: parseArgument_def)
  obtain res2 r2 where j: "jsonPass bypass r1 a1 = (res2, r2)"
    by (cases "jsonPass bypass r1 a1")
  from assms f a1 j obtain a2 where a2: "res2 = Inr a2" and pp: "paramsPass ps a2 = Inr a'"
    by (cases res2) (auto simp: parseArgument_def)
  from j a2 have "pointee a2 = pointee a1"
    using jsonDecode_pointee [of "reqBody r1" a1 a2]
    by (auto simp: jsonPass_def split: if_splits prod.splits)
  moreover from pp have "pointee a' = pointee a2"
    by (cases ps) (auto simp: paramsPass_def dest: formDecode_shape)
  ultimately show ?thesis using formPass_shape [of r a a1] f a1 by auto
qed

lemma zeroValue_struct: "zeroValue t = StructVal fs \<Longrightarrow> kindOf t = KStruct"
  by (cases t) auto

lemma accepted_shape:
  assumes "checkServiceMethodPrototype (Some ft) = None"
  obtains in0 in1 outs v where "ft = TFunc [in0, in1] outs v"
proof -
  from assms have k: "kindOf ft = KFunc"
    by (auto simp: checkServiceMethodPrototype_def split: if_splits)
  then obtain ins outs v where f: "ft = TFunc ins outs v" by (cases ft) auto
  from assms k f obtain in0 in1 where "ins = [in0, in1]"
    by (auto simp: checkServiceMethodPrototype_def split: list.splits if_splits)
  with f that show ?thesis by blast
qed

lemma call_rejected:
  assumes "kindOf in1 = KSlice \<or> kindOf in1 = KMap"
    and "elemOf in1 = Some e"
    and "kindOf e = KStruct"
  shows "\<not> callFits (TFunc [in0, in1] outs v) [contextType, TPtr e]"
proof -
  from assms(1) have "TPtr e \<noteq> in1" "in1 \<noteq> TInterface [] []" by auto
  moreover from assms(3) have "e \<noteq> TInterface [] []" by auto
  ultimately show ?thesis
    using assms(2) pointer_differs [of e] by (auto simp: callFits_def assignableTo_def)
qed

text \<open>
  C10 (a handler whose second parameter is a slice or a \<^verbatim>\<open>map[string]interface{}\<close>,
  which the validator accepts, never has a successful invocation).  For a handler that
  \<^verbatim>\<open>NewServiceHandler\<close> accepted with such a parameter, every request ends without the
  handler's body being entered: either binding fails and the response is the 400
  envelope, or binding into \<^verbatim>\<open>reflect.New(argType.Elem())\<close> succeeds, \<^verbatim>\<open>Call\<close> panics on
  the argument's type, and the response is the 500 envelope of a recovered fault.
\<close>

theorem slice_and_map_handlers_never_succeed:
  assumes "NewServiceHandler (Some m) key bypass = Inr h"
    and "isSlice (argType (smethod h)) \<or> isStringMap (argType (smethod h))"
  shows "\<not> invoked (ServeHTTPWithParams env h rw r ps) \<and>
     ((\<exists>e. calls (response (ServeHTTPWithParams env h rw r ps)) =
              calls rw @ [WriteHeader 400,
                Write (marshalEnvelope env
                  \<lparr>Code = 400, Msg = ''parse argument failed'', Data = DataString e\<rparr> @ [newline])]) \<or>
      (\<exists>p. calls (response (ServeHTTPWithParams env h rw r ps)) =
              calls rw @ [WriteHeader 500,
                Write (marshalEnvelope env
                  \<lparr>Code = 500, Msg = ''service method panicked'', Data = DataPanic p\<rparr> @ [newline])]))"
proof -
  from assms(1) have h: "h = serviceOf m key bypass" by (rule NewServiceHandler_serviceOf)
  from assms(1) have "checkServiceMethodPrototype (Some (funcType m)) = None"
    by (auto simp: NewServiceHandler_def split: option.splits)
  then obtain in0 in1 outs v where ft: "funcType m = TFunc [in0, in1] outs v"
    by (rule accepted_shape)
  have at: "argType (smethod h) = in1" by (simp add: h serviceOf_simps ft)
  from assms(2) at have k: "kindOf in1 = KSlice \<or> kindOf in1 = KMap"
    by (auto simp: isSlice_def isStringMap_def)
  then obtain e where e: "elemOf in1 = Some e" by (cases in1) auto
  with at have e': "elemOf (argType (smethod h)) = Some e" by simp
  obtain res r' where p: "parseArgument (bypassRequestBody h) r ps (reflectNew e) = (res, r')"
    by (cases "parseArgument (bypassRequestBody h) r ps (reflectNew e)")
  show ?thesis
  proof (cases res)
    case (Inl err)
    with serve_bind_failure [OF e', of r ps err r' env rw] p show ?thesis
      by (auto simp: writeErrorResponse_valid valid_400)
  next
    case (Inr arg)
    from parse_success [OF p [unfolded Inr]] obtain fs where
      pa: "pointee arg = e" and z: "zeroValue e = StructVal fs"
      by (auto simp: reflectNew_def)
    from call_rejected [OF k e zeroValue_struct [OF z], of in0 outs v]
    have nf: "\<not> callFits (funcType (mvalue (smethod h))) [contextType, typeOfArgument arg]"
      by (simp add: h serviceOf_simps ft typeOfArgument_def pa)
    let ?st = "\<lparr>respStatus = 200, writer = rw, argNow = arg, handlerRan = False\<rparr>"
    let ?ps = "\<lparr>Panic = ''reflect: Call using an argument of a type the function does not take'',
                Stack = stackTrace env\<rparr>"
    let ?resp = "\<lparr>Code = 500, Msg = ''service method panicked'', Data = DataPanic ?ps\<rparr>"
    let ?v = "\<lparr>vWriter = snd (writeErrorResponse env rw ?resp),
          methodError = None, methodReturn = NilInterface, respData = EnvelopeInterface ?resp\<rparr>"
    from nf have d: "doServiceMethodCall env (smethod h) r' ?st = (([], Some ?ps), ?st)"
      by (simp add: doServiceMethodCall_def reflectCall_def)
    have c: "classify env (writer ?st) [] (Some ?ps) = Inr ?v"
      using classify_fault [of env rw "[]" ?ps] by simp
    have x: "respond env (respStatus ?st) ?v = Inr ?v"
      by (simp add: respond_nothing)
    from serve_parsed [OF e' p [unfolded Inr] d c x] show ?thesis
      by (auto simp: writeErrorResponse_valid valid_500)
  qed
qed

theorem slice_and_map_handlers_never_succeed_witness:
  "NewServiceHandler (Some sliceHandler) None False = Inr (serviceOf sliceHandler None False) \<and>
   (isSlice (argType (smethod (serviceOf sliceHandler None False))) \<or>
    isStringMap (argType (smethod (serviceOf sliceHandler None False)))) \<and>
   \<not> invoked (ServeHTTPWithParams sampleEnv (serviceOf sliceHandler None False) newRecorder emptyPost None) \<and>
     ((\<exists>e. calls (response (ServeHTTPWithParams sampleEnv (serviceOf sliceHandler None False) newRecorder emptyPost None)) =
              calls newRecorder @ [WriteHeader 400,
                Write (marshalEnvelope sampleEnv
                  \<lparr>Code = 400, Msg = ''parse argument failed'', Data = DataString e\<rparr> @ [newline])]) \<or>
      (\<exists>p. calls (response (ServeHTTPWithParams sampleEnv (serviceOf sliceHandler None False) newRecorder emptyPost None)) =
              calls newRecorder @ [WriteHeader 500,
                Write (marshalEnvelope sampleEnv
                  \<lparr>Code = 500, Msg = ''service method panicked'', Data = DataPanic p\<rparr> @ [newline])]))"
proof -
  have a: "NewServiceHandler (Some sliceHandler) None False = Inr (serviceOf sliceHandler None False)"
    by (simp add: NewServiceHandler_def serviceOf_def sliceHandler_def handlerOf_simps
        oneValueType_def validator_defs contextType_def errorType_def)
  have b: "isSlice (argType (smethod (serviceOf sliceHandler None False))) \<or>
    isStringMap (argType (smethod (serviceOf sliceHandler None False)))"
    by (simp add: serviceOf_simps sliceHandler_def handlerOf_simps oneValueType_def isSlice_def)
  from slice_and_map_handlers_never_succeed [OF a b, of sampleEnv newRecorder emptyPost None] a b
  show ?thesis by simp
qed

section \<open>Recovered panics\<close>

text \<open>The part of C3 that the code does fulfil: a panic with a value other than
  \<^verbatim>\<open>nil\<close>, of a handler whose calls of the status setter the writer accepted, is
  recovered and answered, after the handler's own calls, with \<^verbatim>\<open>WriteHeader(500)\<close> and
  the envelope "service method panicked" holding the panic's text and the stack trace.\<close>

lemma recovered_panic_is_500:
  assumes "handlerRun h r ps = Some run"
    and "list_all validStatus (statusCalls (effects run))"
    and "completion run = Panics (Some info)"
  shows "calls (response (ServeHTTPWithParams env h rw r ps)) =
           calls rw @ effectCalls (effects run) @
           [WriteHeader 500,
            Write (marshalEnvelope env
              \<lparr>Code = 500, Msg = ''service method panicked'',
               Data = DataPanic \<lparr>Panic = info, Stack = stackTrace env\<rparr>\<rparr> @ [newline])]"
proof -
  from call_of_run [OF assms(1), of rw] obtain et arg r' where
    e: "elemOf (argType (smethod h)) = Some et" and
    p: "parseArgument (bypassRequestBody h) r ps (reflectNew et) = (Inr arg, r')" and
    c: "reflectCall (mvalue (smethod h)) r' \<lparr>respStatus = 200, writer = rw, argNow = arg, handlerRan = False\<rparr>
       = ((case fst (runEffects \<lparr>respStatus = 200, writer = rw, argNow = arg, handlerRan = True\<rparr>
                       (effects run)) of
             Some info \<Rightarrow> Panics (Some info)
           | None \<Rightarrow> completion run),
          (snd (runEffects \<lparr>respStatus = 200, writer = rw, argNow = arg, handlerRan = True\<rparr>
             (effects run)))
            \<lparr>argNow := arg\<lparr>content := argAfter run\<rparr>\<rparr>)"
    by blast
  let ?st = "(snd (runEffects \<lparr>respStatus = 200, writer = rw, argNow = arg, handlerRan = True\<rparr>
             (effects run)))\<lparr>argNow := arg\<lparr>content := argAfter run\<rparr>\<rparr>"
  let ?ps = "\<lparr>Panic = info, Stack = stackTrace env\<rparr>"
  let ?resp = "\<lparr>Code = 500, Msg = ''service method panicked'', Data = DataPanic ?ps\<rparr>"
  let ?v = "\<lparr>vWriter = snd (writeErrorResponse env (writer ?st) ?resp),
          methodError = None, methodReturn = NilInterface, respData = EnvelopeInterface ?resp\<rparr>"
  note re = runEffects_valid [OF assms(2),
      of "\<lparr>respStatus = 200, writer = rw, argNow = arg, handlerRan = True\<rparr>"]
  have d: "doServiceMethodCall env (smethod h) r'
       \<lparr>respStatus = 200, writer = rw, argNow = arg, handlerRan = False\<rparr> = (([], Some ?ps), ?st)"
    using re by (simp add: doServiceMethodCall_def c assms(3))
  have cl: "classify env (writer ?st) [] (Some ?ps) = Inr ?v"
    by (rule classify_fault)
  have x: "respond env (respStatus ?st) ?v = Inr ?v"
    by (simp add: respond_nothing)
  from serve_parsed [OF e p d cl x] re show ?thesis
    by (simp add: writeErrorResponse_valid valid_500)
qed

section \<open>The access log\<close>

lemma jsonPass_context: "contextValue (snd (jsonPass bypass r a)) = contextValue r"
  by (simp add: jsonPass_def split: prod.splits)

lemma parse_keeps_context: "contextValue (snd (parseArgument bypass r ps a)) = contextValue r"
proof -
  obtain res1 r1 where f: "formPass r a = (res1, r1)" by (cases "formPass r a")
  from formPass_keeps(4) [of r a] f have c1: "contextValue r1 = contextValue r" by simp
  show ?thesis
  proof (cases res1)
    case (Inl e)
    with f c1 show ?thesis by (simp add: parseArgument_def)
  next
    case (Inr a1)
    obtain res r2 where j: "jsonPass bypass r1 a1 = (res, r2)" by (cases "jsonPass bypass r1 a1")
    with jsonPass_context [of bypass r1 a1] c1 have "contextValue r2 = contextValue r" by simp
    with Inr f j show ?thesis by (cases res) (simp_all add: parseArgument_def)
  qed
qed

lemma sampleEnv_simps:
  "beginTime sampleEnv = sampleTime"
  "duration sampleEnv = 1500"
  "jsonMarshal sampleEnv v = Inr ''{}''"
  "formatSeconds sampleEnv d = ''0.0000015''"
  by (simp_all add: sampleEnv_def)

lemma postJson_simps:
  "contextValue (postJson q b) ''aw_test'' = Some LoggerValue"
  "reqBody (postJson q b) = b"
  by (simp_all add: postJson_def)

lemma logFields_active:
  assumes "loggerContextKey h = Some key"
    and "contextValue r key = Some LoggerValue"
    and "snd (logFields env h r arg d) = None"
  shows "\<exists>args resp. fst (logFields env h r arg d) =
           [(''args'', args), (''resp'', resp),
            (''methodBegin'', formatTime (beginTime env)),
            (''methodDuration'', formatSeconds env (duration env))]"
  using assms by (auto simp: logFields_def split: sum.splits)

lemma digitChar_simps:
  "digitChar 0 = CHR ''0''" "digitChar 1 = CHR ''1''" "digitChar (Suc 0) = CHR ''1''"
  "digitChar 2 = CHR ''2''"
  "digitChar 3 = CHR ''3''" "digitChar 4 = CHR ''4''" "digitChar 5 = CHR ''5''"
  "digitChar 6 = CHR ''6''" "digitChar 7 = CHR ''7''" "digitChar 8 = CHR ''8''"
  "digitChar 9 = CHR ''9''"
  by code_simp+

lemma formatTime_sample: "formatTime sampleTime = ''2021-01-24 15:04:05.123456789''"
  by (simp add: formatTime_def sampleTime_def formatFraction_def zeroPad_def trimZeros_def digitChar_simps)

lemma sample_not_microseconds: "\<not> specMicrosecondFormat ''2021-01-24 15:04:05.123456789''"
  by (simp add: specMicrosecondFormat_def)

text \<open>
  C9 (with an active logging hook the core records the four fields \<^verbatim>\<open>args\<close>,
  \<^verbatim>\<open>resp\<close>, \<^verbatim>\<open>methodBegin\<close> and \<^verbatim>\<open>methodDuration\<close> for every request, the time stamp
  with microseconds), as the code has it: when binding succeeded and the function returns,
  exactly these four fields are recorded, in this order, \<^verbatim>\<open>methodBegin\<close> in the layout
  \<^verbatim>\<open>2006-01-02 15:04:05.999999999\<close> (up to nine fractional digits, trailing zeros and an
  empty fraction left out) and \<^verbatim>\<open>methodDuration\<close> as the library prints the seconds.
\<close>

theorem logger_gets_four_fields:
  assumes "loggerContextKey h = Some key"
    and "contextValue r key = Some LoggerValue"
    and "endingOf env h rw r ps \<noteq> BindFailure"
    and "escaped (ServeHTTPWithParams env h rw r ps) = None"
  shows "\<exists>args resp. recorded (ServeHTTPWithParams env h rw r ps) =
           [(''args'', args), (''resp'', resp),
            (''methodBegin'', formatTime (beginTime env)),
            (''methodDuration'', formatSeconds env (duration env))]"
proof (cases "elemOf (argType (smethod h))")
  case None
  with assms(4) show ?thesis by (simp add: ServeHTTPWithParams_def)
next
  case (Some et)
  obtain res r' where p: "parseArgument (bypassRequestBody h) r ps (reflectNew et) = (res, r')"
    by (cases "parseArgument (bypassRequestBody h) r ps (reflectNew et)")
  from parse_keeps_context [of "bypassRequestBody h" r ps "reflectNew et"] p assms(2)
  have cv: "contextValue r' key = Some LoggerValue" by simp
  show ?thesis
  proof (cases res)
    case (Inl e)
    with assms(3) Some p show ?thesis by (simp add: endingOf_def)
  next
    case (Inr arg)
    obtain out mp st where d: "doServiceMethodCall env (smethod h) r'
        \<lparr>respStatus = 200, writer = rw, argNow = arg, handlerRan = False\<rparr> = ((out, mp), st)"
      by (metis surj_pair)
    show ?thesis
    proof (cases "classify env (writer st) out mp")
      case (Inl q)
      with assms(4) Some p Inr d show ?thesis
        by (cases q) (simp add: ServeHTTPWithParams_def)
    next
      case v: (Inr v)
      show ?thesis
      proof (cases "respond env (respStatus st) v")
        case (Inl q)
        with assms(4) Some p Inr d v show ?thesis
          by (cases q) (simp add: ServeHTTPWithParams_def)
      next
        case v': (Inr v')
        note s = serve_parsed [OF Some p [unfolded Inr] d v v']
        from logFields_active [OF assms(1) cv, of env "argNow st" "respData v'"] assms(4)
        show ?thesis by (simp add: s)
      qed
    qed
  qed
qed

lemma nilService_simps:
  "loggerContextKey nilService = Some ''aw_test''"
  "elemOf (argType (smethod nilService)) = Some emptyStruct"
  "bypassRequestBody nilService = False"
  by (simp_all add: nilService_def serviceOf_simps handlerOf_simps twoValueType_def)

lemma nilService_on_emptyPost:
  "ServeHTTPWithParams sampleEnv nilService newRecorder emptyPost None =
     \<lparr>response = writeResponse sampleEnv newRecorder (PtrInterface None), invoked = True,
      recorded = [(''args'', ''{}''), (''resp'', ''null''),
                  (''methodBegin'', ''2021-01-24 15:04:05.123456789''),
                  (''methodDuration'', ''0.0000015'')],
      escaped = None,
      requestAfter = emptyPost\<lparr>reqForm := Some Map.empty, reqBody := None\<rparr>\<rparr>"
  "endingOf sampleEnv nilService newRecorder emptyPost None = SuccessWithValue"
proof -
  let ?r' = "emptyPost\<lparr>reqForm := Some Map.empty, reqBody := None\<rparr>"
  let ?st = "\<lparr>respStatus = 200, writer = newRecorder, argNow = reflectNew emptyStruct,
              handlerRan = True\<rparr>"
  let ?out = "[PtrValue None, ErrorValue None]"
  let ?v = "\<lparr>vWriter = newRecorder, methodError = None, methodReturn = PtrInterface None,
           respData = NilInterface\<rparr>"
  let ?v' = "\<lparr>vWriter = writeResponse sampleEnv newRecorder (PtrInterface None),
            methodError = None, methodReturn = PtrInterface None,
            respData = PtrInterface None\<rparr>"
  have p: "parseArgument (bypassRequestBody nilService) emptyPost None (reflectNew emptyStruct) =
     (Inr (reflectNew emptyStruct), ?r')"
    by (simp add: nilService_simps parse_emptyPost)
  have d: "doServiceMethodCall sampleEnv (smethod nilService) ?r'
        \<lparr>respStatus = 200, writer = newRecorder, argNow = reflectNew emptyStruct, handlerRan = False\<rparr>
      = ((?out, None), ?st)"
    by (simp add: doServiceMethodCall_def reflectCall_def nilService_def serviceOf_simps
        handlerOf_simps twoValueType_def callFits_pointer)
  have c: "classify sampleEnv (writer ?st) ?out None = Inr ?v"
    by (simp add: classify_def errorSlot_def)
  have x: "respond sampleEnv (respStatus ?st) ?v = Inr ?v'"
    by (simp add: respond_def)
  have cv: "contextValue emptyPost ''aw_test'' = Some LoggerValue"
    by (simp add: emptyPost_def postJson_simps)
  have l: "logFields sampleEnv nilService ?r' (argNow ?st) (respData ?v') =
      ([(''args'', ''{}''), (''resp'', ''null''),
        (''methodBegin'', ''2021-01-24 15:04:05.123456789''),
        (''methodDuration'', ''0.0000015'')], None)"
    by (simp add: logFields_def nilService_simps cv sampleEnv_simps jsonMarshalInterface_def
        formatTime_sample)
  from serve_parsed [OF nilService_simps(2) p d c x] l
  show "ServeHTTPWithParams sampleEnv nilService newRecorder emptyPost None =
     \<lparr>response = writeResponse sampleEnv newRecorder (PtrInterface None), invoked = True,
      recorded = [(''args'', ''{}''), (''resp'', ''null''),
                  (''methodBegin'', ''2021-01-24 15:04:05.123456789''),
                  (''methodDuration'', ''0.0000015'')],
      escaped = None, requestAfter = ?r'\<rparr>"
    by simp
  from ending_parsed [OF nilService_simps(2) p d c x]
  show "endingOf sampleEnv nilService newRecorder emptyPost None = SuccessWithValue"
    by simp
qed

theorem logger_gets_four_fields_witness:
  "loggerContextKey nilService = Some ''aw_test'' \<and>
   contextValue emptyPost ''aw_test'' = Some LoggerValue \<and>
   endingOf sampleEnv nilService newRecorder emptyPost None \<noteq> BindFailure \<and>
   escaped (ServeHTTPWithParams sampleEnv nilService newRecorder emptyPost None) = None \<and>
   (\<exists>args resp. recorded (ServeHTTPWithParams sampleEnv nilService newRecorder emptyPost None) =
           [(''args'', args), (''resp'', resp),
            (''methodBegin'', formatTime (beginTime sampleEnv)),
            (''methodDuration'', formatSeconds sampleEnv (duration sampleEnv))])"
proof -
  have k: "loggerContextKey nilService = Some ''aw_test''" by (rule nilService_simps)
  have c: "contextValue emptyPost ''aw_test'' = Some LoggerValue"
    by (simp add: emptyPost_def postJson_simps)
  have b: "endingOf sampleEnv nilService newRecorder emptyPost None \<noteq> BindFailure"
    by (simp add: nilService_on_emptyPost(2))
  have x: "escaped (ServeHTTPWithParams sampleEnv nilService newRecorder emptyPost None) = None"
    by (simp add: nilService_on_emptyPost(1))
  from logger_gets_four_fields [OF k c b x] k c b x show ?thesis by simp
qed

text \<open>C9 as stated fails twice: after a bind failure the function returns before the
  logger is looked up and nothing is recorded, and a time stamp with a nanosecond part
  is printed with nine fractional digits, not six.\<close>

theorem logging_skipped_and_nanoseconds:
  "loggerContextKey nilService = Some ''aw_test'' \<and>
   contextValue (postJson Map.empty brokenBody) ''aw_test'' = Some LoggerValue \<and>
   recorded (ServeHTTPWithParams sampleEnv nilService newRecorder (postJson Map.empty brokenBody) None) = [] \<and>
   contextValue emptyPost ''aw_test'' = Some LoggerValue \<and>
   recorded (ServeHTTPWithParams sampleEnv nilService newRecorder emptyPost None) =
     [(''args'', ''{}''), (''resp'', ''null''),
      (''methodBegin'', ''2021-01-24 15:04:05.123456789''),
      (''methodDuration'', ''0.0000015'')] \<and>
   \<not> specMicrosecondFormat ''2021-01-24 15:04:05.123456789''"
proof -
  have c: "contextValue emptyPost ''aw_test'' = Some LoggerValue"
    "contextValue (postJson Map.empty brokenBody) ''aw_test'' = Some LoggerValue"
    by (simp_all add: emptyPost_def postJson_simps)
  have q: "parseArgument (bypassRequestBody nilService) (postJson Map.empty brokenBody) None
       (reflectNew emptyStruct) =
     (Inl ''invalid character '1' looking for beginning of object key string'',
      (postJson Map.empty brokenBody)\<lparr>reqForm := Some Map.empty, reqBody := None\<rparr>)"
    by (simp add: nilService_simps parse_brokenBody)
  have y: "recorded (ServeHTTPWithParams sampleEnv nilService newRecorder
        (postJson Map.empty brokenBody) None) = []"
    using serve_bind_failure [OF nilService_simps(2) q, of sampleEnv newRecorder] by simp
  from nilService_simps(1) c y sample_not_microseconds show ?thesis
    by (simp add: nilService_on_emptyPost(1))
qed

section \<open>Binding the same request twice\<close>

lemma ParseForm_again: "ParseForm (snd (ParseForm r)) = (None, snd (ParseForm r))"
  by (simp add: ParseForm_def split: option.splits)

lemma ParseForm_filled: "reqForm (snd (ParseForm r)) \<noteq> None"
  by (simp add: ParseForm_def split: option.splits)

lemma ParseMultipartForm_filled:
  assumes "reqForm r = Some f"
  shows "ParseMultipartForm r =
     (if reqMultipartParsed r then (None, r)
      else (case readMultipart r of
              Inl err \<Rightarrow> (Some err, r)
            | Inr form \<Rightarrow> (None, r\<lparr>reqForm := Some form, reqMultipartParsed := True\<rparr>)))"
  using assms by (simp add: ParseMultipartForm_def)

lemma ParseMultipartForm_unfilled:
  assumes "reqForm r = None" and "fst (ParseForm r) = None"
  shows "ParseMultipartForm r = ParseMultipartForm (snd (ParseForm r))"
proof -
  obtain r0 where p: "ParseForm r = (None, r0)"
    using assms(2) by (cases "ParseForm r") simp
  obtain f where f: "reqForm r0 = Some f"
    using ParseForm_filled [of r] p by auto
  have "ParseMultipartForm r =
     (if reqMultipartParsed r0 then (None, r0)
      else (case readMultipart r0 of
              Inl err \<Rightarrow> (Some err, r0)
            | Inr form \<Rightarrow> (None, r0\<lparr>reqForm := Some form, reqMultipartParsed := True\<rparr>)))"
    by (simp add: ParseMultipartForm_def assms(1) p)
  with ParseMultipartForm_filled [OF f] p show ?thesis by simp
qed

lemma ParseMultipartForm_again_filled:
  assumes "reqForm r = Some f"
  shows "ParseMultipartForm (snd (ParseMultipartForm r)) = ParseMultipartForm r"
proof (cases "reqMultipartParsed r")
  case True
  with ParseMultipartForm_filled [OF assms] show ?thesis by simp
next
  case False
  show ?thesis
  proof (cases "readMultipart r")
    case (Inl err)
    with False ParseMultipartForm_filled [OF assms] show ?thesis by simp
  next
    case (Inr form)
    let ?r2 = "r\<lparr>reqForm := Some form, reqMultipartParsed := True\<rparr>"
    from Inr False ParseMultipartForm_filled [OF assms]
    have a: "ParseMultipartForm r = (None, ?r2)" by simp
    have "reqForm ?r2 = Some form" by simp
    from ParseMultipartForm_filled [OF this] have "ParseMultipartForm ?r2 = (None, ?r2)" by simp
    with a show ?thesis by simp
  qed
qed

lemma ParseMultipartForm_again:
  assumes "fst (ParseForm r) = None"
  shows "ParseMultipartForm (snd (ParseMultipartForm r)) = ParseMultipartForm r"
proof (cases "reqForm r")
  case None
  obtain f where f: "reqForm (snd (ParseForm r)) = Some f"
    using ParseForm_filled [of r] by auto
  from ParseMultipartForm_unfilled [OF None assms] ParseMultipartForm_again_filled [OF f]
  show ?thesis by simp
next
  case (Some f)
  then show ?thesis by (rule ParseMultipartForm_again_filled)
qed

lemma ParseForm_again_pair:
  assumes "fst (ParseForm r) = None"
  shows "ParseForm (snd (ParseForm r)) = ParseForm r"
  using assms ParseForm_again [of r] by (cases "ParseForm r") simp

lemma formPass_again:
  assumes "fst (ParseForm r) = None"
  shows "formPass (snd (formPass r a)) a = formPass r a"
proof -
  let ?multi = "ToUpper (reqMethod r) = ''POST'' \<and> ToLower (reqContentType r) = ''multipart/form-data''"
  let ?P = "if ?multi then ParseMultipartForm r else ParseForm r"
  have again: "(if ?multi then ParseMultipartForm (snd ?P) else ParseForm (snd ?P)) = ?P"
    using ParseMultipartForm_again [OF assms] ParseForm_again_pair [OF assms] by simp
  have s: "snd (formPass r a) = snd ?P"
    by (simp add: formPass_def split: prod.splits option.splits)
  have k: "reqMethod (snd ?P) = reqMethod r" "reqContentType (snd ?P) = reqContentType r"
    by (simp_all add: ParseForm_keeps ParseMultipartForm_keeps)
  show ?thesis
    unfolding s by (simp add: formPass_def [of "snd ?P"] formPass_def [of r] k again)
qed

lemma parse_without_json:
  assumes "\<not> jsonApplicable bypass r"
  shows "parseArgument bypass r ps a =
     (case fst (formPass r a) of Inl e \<Rightarrow> Inl e | Inr a1 \<Rightarrow> paramsPass ps a1,
      snd (formPass r a))"
  using assms jsonApplicable_formPass [of bypass r a]
  by (cases "formPass r a") (auto simp: parseArgument_def jsonPass_def split: sum.splits)

text \<open>
  C8 (binding the same raw request twice, each time into a fresh argument, gives the
  same values), as the code has it: this holds for a request on which the JSON pass does
  not apply and whose first \<^verbatim>\<open>r.ParseForm()\<close> reports no error.  The first run leaves
  the parsed form in the request, and the second run reads it from there.  When the JSON
  pass runs it reads the body, and the second run finds the body exhausted; when the
  first \<^verbatim>\<open>r.ParseForm()\<close> reports an error, the second, which finds \<^verbatim>\<open>r.Form\<close> set,
  reports none.
\<close>

theorem binding_twice_without_json:
  assumes "\<not> jsonApplicable bypass r"
    and "firstParseError r = None"
  shows "parseArgument bypass (snd (parseArgument bypass r ps (reflectNew et))) ps (reflectNew et) =
         parseArgument bypass r ps (reflectNew et)"
proof -
  let ?a = "reflectNew et"
  let ?r1 = "snd (formPass r ?a)"
  from assms(2) have fe: "fst (ParseForm r) = None" by (simp add: firstParseError_def)
  from assms(1) have n1: "\<not> jsonApplicable bypass ?r1" by (simp add: jsonApplicable_formPass)
  have s: "snd (parseArgument bypass r ps ?a) = ?r1"
    by (simp add: parse_without_json [OF assms(1)])
  show ?thesis
    unfolding s
    by (simp add: parse_without_json [OF n1] parse_without_json [OF assms(1)]
        formPass_again [OF fe])
qed

lemma jsonApplicable_GET: "\<not> jsonApplicable bypass (getRequest err q)"
  by (simp add: jsonApplicable_def getRequest_def ToUpper_GET)

theorem binding_twice_without_json_witness:
  "\<not> jsonApplicable False (getRequest None abcQuery) \<and>
   firstParseError (getRequest None abcQuery) = None \<and>
   parseArgument False (snd (parseArgument False (getRequest None abcQuery) None (reflectNew abcStruct)))
       None (reflectNew abcStruct) =
   parseArgument False (getRequest None abcQuery) None (reflectNew abcStruct)"
proof -
  have a: "\<not> jsonApplicable False (getRequest None abcQuery)"
    by (rule jsonApplicable_GET)
  have b: "firstParseError (getRequest None abcQuery) = None"
    by (simp add: firstParseError_def ParseForm_def getRequest_def)
  from binding_twice_without_json [OF a b] a b show ?thesis by simp
qed

lemma parseInt_digits: "parseInt ''1'' = Some 1" "parseInt ''3'' = Some 3"
  by code_simp+

lemma formDecode_abcQuery:
  "formDecode (reflectNew abcStruct) abcQuery =
     Inr \<lparr>pointee = abcStruct,
          content = StructVal [(''A'', VInt 1), (''B'', VInt 1), (''C'', VInt 1)]\<rparr>"
  by (simp add: formDecode_def reflectNew_def abcStruct_def zeroStruct_def abcQuery_def
      convertField_def parseInt_digits del: parseInt.simps)

lemma parse_abc:
  "parseArgument False abcPost (Some [(''C'', ''3'')]) (reflectNew abcStruct) =
     (Inr abcBound, abcPost\<lparr>reqForm := Some abcQuery, reqBody := None\<rparr>)"
  apply (simp add: parseArgument_def abcPost_def formPass_postJson formDecode_abcQuery
      jsonPass_def jsonApplicable_postJson)
  apply (simp add: postJson_def jsonDecode_def abcBody_def assignMember_def paramsPass_def
      formDecode_def convertField_def parseInt_digits abcBound_def del: parseInt.simps)
  done

lemma formPass_abc_again:
  "formPass (abcPost\<lparr>reqForm := Some abcQuery, reqBody := None\<rparr>) arg =
     (formDecode arg abcQuery, abcPost\<lparr>reqForm := Some abcQuery, reqBody := None\<rparr>)"
  by (simp add: formPass_def ParseForm_def formOf_def abcPost_def postJson_def ToLower_json)

lemma parse_abc_again:
  "fst (parseArgument False (abcPost\<lparr>reqForm := Some abcQuery, reqBody := None\<rparr>)
          (Some [(''C'', ''3'')]) (reflectNew abcStruct)) = Inl ''EOF''"
proof -
  have j: "jsonApplicable False (abcPost\<lparr>reqForm := Some abcQuery, reqBody := None\<rparr>)"
    by (simp add: jsonApplicable_def abcPost_def postJson_def ToUpper_POST ToLower_json
        HasPrefix_def)
  show ?thesis
    by (simp add: parseArgument_def formPass_abc_again formDecode_abcQuery jsonPass_def j
        jsonDecode_def)
qed

lemma parse_badQuery:
  "parseArgument False badQuery None (reflectNew abcStruct) =
     (Inl ''invalid URL escape %zz'', badQuery\<lparr>reqForm := Some [''A'' \<mapsto> ''1'']\<rparr>)"
  by (simp add: parseArgument_def formPass_def ParseForm_def badQuery_def getRequest_def
      ToUpper_GET)

lemma parse_badQuery_again:
  "fst (parseArgument False (badQuery\<lparr>reqForm := Some [''A'' \<mapsto> ''1'']\<rparr>) None
          (reflectNew abcStruct)) = Inr aBound"
proof -
  have f: "formPass (badQuery\<lparr>reqForm := Some [''A'' \<mapsto> ''1'']\<rparr>) (reflectNew abcStruct) =
      (Inr aBound, badQuery\<lparr>reqForm := Some [''A'' \<mapsto> ''1'']\<rparr>)"
    by (simp add: formPass_def ParseForm_def formOf_def badQuery_def getRequest_def ToUpper_GET
        formDecode_def reflectNew_def abcStruct_def zeroStruct_def convertField_def
        parseInt_digits aBound_def del: parseInt.simps)
  have n: "\<not> jsonApplicable False (badQuery\<lparr>reqForm := Some [''A'' \<mapsto> ''1'']\<rparr>)"
    by (simp add: badQuery_def jsonApplicable_GET)
  show ?thesis
    by (simp add: parse_without_json [OF n] f paramsPass_def)
qed

text \<open>C8 as stated fails twice.  On the request of the repository's test "normal
  request with arguments in path, body and query" the first run binds \<open>A = 1\<close>,
  \<open>B = 2\<close>, \<open>C = 3\<close> and the second run on the same request fails with \<^verbatim>\<open>EOF\<close>.  On
  \<^verbatim>\<open>GET /?A=1&B=%zz\<close> the first run fails with the parse error and the second run binds
  \<open>A = 1\<close>.\<close>

theorem second_binding_differs:
  "fst (parseArgument False abcPost (Some [(''C'', ''3'')]) (reflectNew abcStruct)) = Inr abcBound \<and>
   fst (parseArgument False
          (snd (parseArgument False abcPost (Some [(''C'', ''3'')]) (reflectNew abcStruct)))
          (Some [(''C'', ''3'')]) (reflectNew abcStruct)) = Inl ''EOF'' \<and>
   \<not> jsonApplicable False badQuery \<and>
   fst (parseArgument False badQuery None (reflectNew abcStruct)) = Inl ''invalid URL escape %zz'' \<and>
   fst (parseArgument False
          (snd (parseArgument False badQuery None (reflectNew abcStruct)))
          None (reflectNew abcStruct)) = Inr aBound"
  by (simp add: parse_abc parse_abc_again parse_badQuery parse_badQuery_again)
     (simp add: badQuery_def jsonApplicable_GET)

section \<open>Priority of the binding sources\<close>














end
